theory Spec2Isabelle
  imports Complex_Main "HOL-Library.Char_ord" "HOL-Library.List_Lexorder"
begin

section \<open>JavaScript numbers\<close>

text \<open>
  The values of a double: the finite ones, as the rational each stands for, the two
  infinities and NaN. The two zeros are one value here, as they are for \<open>===\<close>; the
  operations below never divide by a zero, where alone the sign of a zero would show.
\<close>

datatype jsnum = Fin rat | PosInf | NegInf | NaN

text \<open>The nearest integer, a tie going to the even one.\<close>

definition roundTiesToEven :: "rat \<Rightarrow> int" where
  "roundTiesToEven x =
     (let f = \<lfloor>x\<rfloor>; d = x - of_int f
      in if d < 1 / 2 then f else if 1 / 2 < d then f + 1 else if even f then f else f + 1)"

text \<open>
  Scaling a positive \<open>m * 2^e\<close> until \<open>2^52 \<le> m < 2^53\<close> (53 significant bits), the
  exponent never going below \<open>-1074\<close>, that of the subnormal doubles.
  \<open>9007199254740992\<close> is \<open>2^53\<close> and \<open>4503599627370496\<close> is \<open>2^52\<close>.
\<close>

function scaleDown :: "rat \<Rightarrow> int \<Rightarrow> rat \<times> int" where
  "scaleDown m e = (if 9007199254740992 \<le> m then scaleDown (m / 2) (e + 1) else (m, e))"
  by pat_completeness auto
termination
proof (relation "measure (\<lambda>(m, e). nat \<lfloor>m\<rfloor>)")
  show "wf (measure (\<lambda>(m, e). nat \<lfloor>m\<rfloor>))" by simp
next
  fix m :: rat and e :: int
  assume a: "9007199254740992 \<le> m"
  then have "m / 2 \<le> m - 1" by simp
  then have "\<lfloor>m / 2\<rfloor> \<le> \<lfloor>m - 1\<rfloor>" by (rule floor_mono)
  then have "\<lfloor>m / 2\<rfloor> < \<lfloor>m\<rfloor>" by simp
  moreover have "0 < \<lfloor>m\<rfloor>" using a by (simp add: floor_less_iff less_floor_iff)
  ultimately show "((m / 2, e + 1), (m, e)) \<in> measure (\<lambda>(m, e). nat \<lfloor>m\<rfloor>)"
    by simp
qed

function scaleUp :: "rat \<Rightarrow> int \<Rightarrow> rat \<times> int" where
  "scaleUp m e = (if m < 4503599627370496 \<and> - 1074 < e then scaleUp (m * 2) (e - 1) else (m, e))"
  by pat_completeness auto
termination
  by (relation "measure (\<lambda>(m, e). nat (e + 1074))") auto

declare scaleDown.simps [simp del] scaleUp.simps [simp del]

definition pow2 :: "int \<Rightarrow> rat" where
  "pow2 e = (if 0 \<le> e then 2 ^ nat e else 1 / 2 ^ nat (- e))"

text \<open>
  Rounding an exact result to the nearest double, ties to even: the significand is
  rounded to an integer at the scale found; a result of magnitude \<open>2^1024\<close> or more (scale
  above 971, or significand rounded up to \<open>2^53\<close> at scale 971) is an infinity.
\<close>

definition roundDouble :: "rat \<Rightarrow> jsnum" where
  "roundDouble x =
     (if x = 0 then Fin 0
      else
        (case scaleDown \<bar>x\<bar> 0 of
           (m1, e1) \<Rightarrow>
             (case scaleUp m1 e1 of
                (m, e) \<Rightarrow>
                  let n = roundTiesToEven m
                  in if 971 < e \<or> (e = 971 \<and> n = 9007199254740992)
                     then (if 0 < x then PosInf else NegInf)
                     else Fin ((if 0 < x then of_int n else - of_int n) * pow2 e))))"

text \<open>A \<open>jsnum\<close> that a JavaScript number can be: a finite one is its own rounding.\<close>

definition isNumber :: "jsnum \<Rightarrow> bool" where
  "isNumber a = (case a of Fin x \<Rightarrow> roundDouble x = Fin x | _ \<Rightarrow> True)"

text \<open>\<open>a + b\<close>\<close>

fun fadd :: "jsnum \<Rightarrow> jsnum \<Rightarrow> jsnum" where
  "fadd (Fin x) (Fin y) = roundDouble (x + y)"
| "fadd NaN b = NaN"
| "fadd a NaN = NaN"
| "fadd PosInf NegInf = NaN"
| "fadd NegInf PosInf = NaN"
| "fadd PosInf b = PosInf"
| "fadd a PosInf = PosInf"
| "fadd NegInf b = NegInf"
| "fadd a NegInf = NegInf"

text \<open>\<open>a * b\<close>\<close>

fun fmul :: "jsnum \<Rightarrow> jsnum \<Rightarrow> jsnum" where
  "fmul (Fin x) (Fin y) = roundDouble (x * y)"
| "fmul NaN b = NaN"
| "fmul a NaN = NaN"
| "fmul PosInf (Fin y) = (if y = 0 then NaN else if 0 < y then PosInf else NegInf)"
| "fmul NegInf (Fin y) = (if y = 0 then NaN else if 0 < y then NegInf else PosInf)"
| "fmul (Fin x) PosInf = (if x = 0 then NaN else if 0 < x then PosInf else NegInf)"
| "fmul (Fin x) NegInf = (if x = 0 then NaN else if 0 < x then NegInf else PosInf)"
| "fmul PosInf PosInf = PosInf"
| "fmul PosInf NegInf = NegInf"
| "fmul NegInf PosInf = NegInf"
| "fmul NegInf NegInf = PosInf"

text \<open>\<open>a / 100\<close>\<close>

fun fdiv100 :: "jsnum \<Rightarrow> jsnum" where
  "fdiv100 (Fin x) = roundDouble (x / 100)"
| "fdiv100 PosInf = PosInf"
| "fdiv100 NegInf = NegInf"
| "fdiv100 NaN = NaN"

section \<open>Data model (types.ts)\<close>

text \<open>
  A JavaScript number is a \<open>jsnum\<close>, an IEEE 754 double (next section), wherever the code
  computes with it: prices, quantities, tax rates and totals. Invoice counters and
  timestamps are integers, which the doubles hold exactly below \<open>2^53\<close>. A JavaScript string
  is a \<open>string\<close>, each \<open>char\<close> standing for one code unit below 256. An optional field
  \<open>f?: T\<close> is a \<open>T option\<close>, \<open>None\<close> for \<open>undefined\<close>. Record fields keep the source's
  names; \<open>id\<close>, \<open>name\<close> and \<open>userId\<close> occur in several interfaces and carry a prefix.
\<close>

record Product =
  p_id :: int
  p_name :: string
  price :: jsnum
  docId :: "string option"

record BillItem =
  product :: Product
  quantity :: jsnum
  lineId :: "string option"
  gstRate :: "jsnum option"

record InvoiceData =
  inv_id :: "string option"
  invoiceNumber :: string
  date :: int
  customerName :: string
  customerPhone :: string
  items :: "BillItem list"
  subtotal :: jsnum
  gstAmount :: jsnum
  grandTotal :: jsnum
  userId :: string
  createdAt :: "int option"

text \<open>
  Modelled from the spec: the declaration of \<open>FirmDetails.invoiceFormat\<close> is missing from the
  type declarations at hand; the code reads its fields \<open>type\<close>, \<open>startNumber\<close> and
  \<open>currentNumber\<close>, and the spec describes it as
  \<open>invoiceNumbering: optional { mode: "sequential" | "freeform", startNumber, currentNumber }\<close>.
\<close>

record InvoiceFormat =
  fmt_type :: "string option"
  startNumber :: "int option"
  currentNumber :: "int option"

text \<open>The boolean toggles of \<open>displaySettings\<close> (\<open>showLogoOnHeader\<close> and the rest) are
  kept by name in \<open>toggles\<close>; the three text fields are fields.\<close>

record DisplaySettings =
  toggles :: "string \<rightharpoonup> bool"
  customInvoicePrefix :: "string option"
  customHeaderText :: "string option"
  customInvoiceText :: "string option"

record FirmDetails =
  firm_userId :: string
  firmName :: string
  displaySettings :: "DisplaySettings option"
  invoiceFormat :: "InvoiceFormat option"

text \<open>
  Modelled from the spec: the declaration of \<open>Customer\<close> is missing from the type declarations
  at hand; the spec gives \<open>{ id, name (required), phone?, address?, ownerId }\<close> and the loader
  in the application reads \<open>name\<close>, \<open>phone\<close>, \<open>address\<close>, \<open>gstNumber\<close> and \<open>userId\<close>.
\<close>

record Customer =
  c_id :: string
  c_name :: string
  c_phone :: "string option"
  c_address :: "string option"
  c_gstNumber :: "string option"
  c_userId :: string

datatype View = View_form | View_history | View_manage | View_settings

text \<open>The component state of \<open>App\<close> that the handlers below read or write.\<close>

record AppState =
  user :: "string option"
  view :: View
  currentInvoice :: "InvoiceData option"
  editingInvoice :: "InvoiceData option"
  customers :: "Customer list"
  firmDetails :: "FirmDetails option"

section \<open>JavaScript strings\<close>

text \<open>Truthiness of an optional string: \<open>undefined\<close> and \<open>''\<close> are falsy.\<close>

definition truthy :: "string option \<Rightarrow> bool" where
  "truthy s = (case s of None \<Rightarrow> False | Some t \<Rightarrow> t \<noteq> [])"

text \<open>The character class \<open>[a-zA-Z0-9]\<close>.\<close>

definition isAlnum :: "char \<Rightarrow> bool" where
  "isAlnum c = (let n = (of_char c :: nat) in
     (48 \<le> n \<and> n \<le> 57) \<or> (65 \<le> n \<and> n \<le> 90) \<or> (97 \<le> n \<and> n \<le> 122))"

text \<open>The class \<open>\s\<close> (and what \<open>trim\<close> removes) among the code units below 256:
  tab, line feed, vertical tab, form feed, carriage return, space, no-break space.\<close>

definition isWhiteSpace :: "char \<Rightarrow> bool" where
  "isWhiteSpace c = (let n = (of_char c :: nat) in
     n = 9 \<or> n = 10 \<or> n = 11 \<or> n = 12 \<or> n = 13 \<or> n = 32 \<or> n = 160)"

text \<open>\<open>s.replace(/[^a-zA-Z0-9]/g, '')\<close>\<close>

definition stripNonAlnum :: "string \<Rightarrow> string" where
  "stripNonAlnum s = filter isAlnum s"

text \<open>\<open>toUpperCase\<close>; every call site applies it to the result of \<open>stripNonAlnum\<close>, where
  only the letters \<open>a\<close> to \<open>z\<close> change.\<close>

definition toUpperChar :: "char \<Rightarrow> char" where
  "toUpperChar c = (let n = (of_char c :: nat) in
     if 97 \<le> n \<and> n \<le> 122 then char_of (n - 32) else c)"

definition toUpperCase :: "string \<Rightarrow> string" where
  "toUpperCase s = map toUpperChar s"

text \<open>\<open>s.substring(0, n)\<close> for \<open>0 \<le> n\<close>\<close>

definition substring0 :: "nat \<Rightarrow> string \<Rightarrow> string" where
  "substring0 n s = take n s"

text \<open>\<open>s.trim()\<close>\<close>

definition trim :: "string \<Rightarrow> string" where
  "trim s = rev (dropWhile isWhiteSpace (rev (dropWhile isWhiteSpace s)))"

text \<open>\<open>a || b\<close> on strings: \<open>b\<close> when \<open>a\<close> is empty.\<close>

definition orElse :: "string \<Rightarrow> string \<Rightarrow> string" where
  "orElse a b = (if a = [] then b else a)"

text \<open>Decimal rendering of an integer, as a template literal renders a counter or
  \<open>Date.now()\<close>.\<close>

definition digitChar :: "nat \<Rightarrow> char" where
  "digitChar d = ''0123456789'' ! d"

fun natToString :: "nat \<Rightarrow> string" where
  "natToString n = (if n < 10 then [digitChar n] else natToString (n div 10) @ [digitChar (n mod 10)])"

declare natToString.simps [simp del]

definition numToString :: "int \<Rightarrow> string" where
  "numToString i = (if i < 0 then CHR ''-'' # natToString (nat (- i)) else natToString (nat i))"

text \<open>\<open>s.split(/\s+/)\<close>: the first argument is the piece being read. A separator is a
  maximal run of white space; a separator at either end leaves an empty piece there, and
  the empty string splits into one empty piece.\<close>

function splitWhitespace :: "string \<Rightarrow> string \<Rightarrow> string list" where
  "splitWhitespace cur [] = [cur]"
| "splitWhitespace cur (c # cs) =
     (if isWhiteSpace c then cur # splitWhitespace [] (dropWhile isWhiteSpace cs)
      else splitWhitespace (cur @ [c]) cs)"
  by pat_completeness auto
termination
  by (relation "measure (\<lambda>(cur, s). length s)") (auto simp: less_Suc_eq_le length_dropWhile_le)

text \<open>\<open>w[0]\<close> on a string: \<open>undefined\<close> on the empty string.\<close>

definition charAt0 :: "string \<Rightarrow> string option" where
  "charAt0 w = (case w of [] \<Rightarrow> None | c # _ \<Rightarrow> Some [c])"

section \<open>Invoice prefix (generateInvoicePrefix)\<close>

definition generateInvoicePrefix :: "string option \<Rightarrow> string" where
  "generateInvoicePrefix firmNameArg =
     (case firmNameArg of
        None \<Rightarrow> ''INV''
      | Some fn \<Rightarrow>
          if fn = [] \<or> trim fn = [] then ''INV''
          else
            let cleanName = toUpperCase (stripNonAlnum fn);
                words = splitWhitespace [] (trim fn)
            in if length words = 1 then
                 orElse (substring0 (min 4 (length cleanName)) cleanName) ''INV''
               else if length words = 2 then
                 let word1 = toUpperCase (stripNonAlnum (words ! 0));
                     word2 = toUpperCase (stripNonAlnum (words ! 1))
                 in orElse (substring0 2 word1 @ substring0 2 word2) ''INV''
               else
                 orElse
                   (toUpperCase
                      (concat
                         (List.map_filter (\<lambda>c. if truthy c then c else None)
                            (map (\<lambda>w. charAt0 (stripNonAlnum w))
                               (take (min 5 (length words)) words)))))
                   ''INV'')"

section \<open>Bill calculation and invoice numbering (handleGenerateBill)\<close>

text \<open>The two \<open>reduce\<close> calls, each from the initial value \<open>0\<close>. \<open>GST_RATE\<close> is a constant
  of \<open>constants.ts\<close>, a fraction (the default percentage is \<open>GST_RATE * 100\<close>); it is a
  parameter here.\<close>

definition calcSubtotal :: "BillItem list \<Rightarrow> jsnum" where
  "calcSubtotal billItems =
     foldl (\<lambda>acc item. fadd acc (fmul (price (product item)) (quantity item))) (Fin 0) billItems"

definition calcGstAmount :: "jsnum \<Rightarrow> BillItem list \<Rightarrow> jsnum" where
  "calcGstAmount GST_RATE billItems =
     foldl (\<lambda>acc item.
              let itemTotal = fmul (price (product item)) (quantity item);
                  itemGstRate = fdiv100 (case gstRate item of
                                           Some r \<Rightarrow> r
                                         | None \<Rightarrow> fmul GST_RATE (Fin 100))
              in fadd acc (fmul itemTotal itemGstRate)) (Fin 0) billItems"

text \<open>\<open>firmDetails?.invoiceFormat?.type === 'sequential'\<close>\<close>

definition isSequential :: "FirmDetails option \<Rightarrow> bool" where
  "isSequential fd =
     (case fd of None \<Rightarrow> False
      | Some f \<Rightarrow> (case invoiceFormat f of None \<Rightarrow> False
                  | Some fmt \<Rightarrow> fmt_type fmt = Some ''sequential''))"

text \<open>\<open>(currentNumber ?? (startNumber || 1) - 1) + 1\<close>: \<open>??\<close> binds weaker than \<open>-\<close>, and
  \<open>||\<close> replaces an absent or zero start number by 1.\<close>

definition startOrOne :: "InvoiceFormat \<Rightarrow> int" where
  "startOrOne fmt = (case startNumber fmt of None \<Rightarrow> 1 | Some s \<Rightarrow> if s = 0 then 1 else s)"

definition nextNumber :: "InvoiceFormat \<Rightarrow> int" where
  "nextNumber fmt = (case currentNumber fmt of Some c \<Rightarrow> c | None \<Rightarrow> startOrOne fmt - 1) + 1"

text \<open>\<open>firmDetails?.displaySettings?.customInvoicePrefix\<close>\<close>

definition prefixOf :: "FirmDetails option \<Rightarrow> string option" where
  "prefixOf fd =
     (case fd of None \<Rightarrow> None
      | Some f \<Rightarrow> (case displaySettings f of None \<Rightarrow> None | Some ds \<Rightarrow> customInvoicePrefix ds))"

text \<open>The invoice number of a preview; \<open>now\<close> is the value of \<open>Date.now()\<close>.\<close>

definition generateInvoiceNumber :: "int \<Rightarrow> AppState \<Rightarrow> string" where
  "generateInvoiceNumber now st =
     (case editingInvoice st of
        Some e \<Rightarrow> invoiceNumber e
      | None \<Rightarrow>
          if isSequential (firmDetails st) then
            let nextNum = nextNumber (the (invoiceFormat (the (firmDetails st))));
                prefix = prefixOf (firmDetails st)
            in if truthy prefix then the prefix @ ''-'' @ numToString nextNum
               else numToString nextNum
          else
            let invoicePrefix =
                  (if truthy (prefixOf (firmDetails st)) then the (prefixOf (firmDetails st))
                   else generateInvoicePrefix (map_option firmName (firmDetails st)))
            in invoicePrefix @ ''-'' @ numToString now)"

text \<open>Without a logged-in user the handler alerts and returns; otherwise it stores the
  preview in \<open>currentInvoice\<close>, with the id of the invoice being edited when it has one.\<close>

definition handleGenerateBill ::
  "jsnum \<Rightarrow> int \<Rightarrow> string \<Rightarrow> string \<Rightarrow> BillItem list \<Rightarrow> int \<Rightarrow> AppState \<Rightarrow> AppState" where
  "handleGenerateBill GST_RATE now custName custPhone billItems billDate st =
     (case user st of
        None \<Rightarrow> st
      | Some uid \<Rightarrow>
          let sub = calcSubtotal billItems;
              gst = calcGstAmount GST_RATE billItems;
              grand = fadd sub gst;
              invNo = generateInvoiceNumber now st;
              invoiceBaseData =
                \<lparr> inv_id = (case editingInvoice st of None \<Rightarrow> None
                            | Some e \<Rightarrow> if truthy (inv_id e) then inv_id e else None),
                  invoiceNumber = invNo, date = billDate,
                  customerName = custName, customerPhone = custPhone,
                  items = billItems, subtotal = sub, gstAmount = gst, grandTotal = grand,
                  userId = uid, createdAt = None \<rparr>
          in st \<lparr> currentInvoice := Some invoiceBaseData \<rparr>)"


definition handleEditInvoice :: "InvoiceData \<Rightarrow> AppState \<Rightarrow> AppState" where
  "handleEditInvoice invoice st =
     st \<lparr> editingInvoice := Some invoice, view := View_form, currentInvoice := None \<rparr>"

definition handleViewInvoice :: "InvoiceData \<Rightarrow> AppState \<Rightarrow> AppState" where
  "handleViewInvoice invoice st = st \<lparr> currentInvoice := Some invoice \<rparr>"

section \<open>The document store\<close>

text \<open>
  The store is an external collaborator. Its two collections that the save path touches are
  maps from document id to document; what a call answers (the id \<open>addDoc\<close> assigns, whether
  a call fails, the server's time) is decided by the environment and passed in as a
  \<open>StoreEnv\<close>. \<open>updateDoc\<close> fails on a document that does not exist.
\<close>

record InvoiceDoc =
  doc_invoiceNumber :: string
  doc_date :: int
  doc_customerName :: string
  doc_customerPhone :: string
  doc_items :: "BillItem list"
  doc_subtotal :: jsnum
  doc_gstAmount :: jsnum
  doc_grandTotal :: jsnum
  doc_userId :: string
  doc_createdAt :: "int option"
  doc_updatedAt :: "int option"

record Store =
  invoices :: "string \<rightharpoonup> InvoiceDoc"
  firmDocs :: "string \<rightharpoonup> FirmDetails"

record StoreEnv =
  serverTime :: int
  newDocId :: "string option"
  invoiceUpdateOk :: bool
  firmUpdateOk :: bool

definition addDoc_invoice :: "StoreEnv \<Rightarrow> InvoiceDoc \<Rightarrow> Store \<Rightarrow> (string \<times> Store) option" where
  "addDoc_invoice env d store =
     (case newDocId env of
        None \<Rightarrow> None
      | Some i \<Rightarrow> Some (i, store \<lparr> invoices := (invoices store)(i \<mapsto> d) \<rparr>))"

definition updateDoc_invoice ::
  "StoreEnv \<Rightarrow> string \<Rightarrow> (InvoiceDoc \<Rightarrow> InvoiceDoc) \<Rightarrow> Store \<Rightarrow> Store option" where
  "updateDoc_invoice env i upd store =
     (if invoiceUpdateOk env then
        (case invoices store i of
           None \<Rightarrow> None
         | Some d \<Rightarrow> Some (store \<lparr> invoices := (invoices store)(i \<mapsto> upd d) \<rparr>))
      else None)"

text \<open>Writing \<open>currentNumber\<close> into the \<open>invoiceFormat\<close> map of a firm document and keeping
  the rest of the map: what \<open>updateDoc(firmRef, {'invoiceFormat.currentNumber': n})\<close> does
  to the stored document (the dot notation writes one nested field), and what the spread
  \<open>{...prev, invoiceFormat: {...prev.invoiceFormat!, currentNumber: n}}\<close> does to the local
  one.\<close>

definition withCurrentNumber :: "int \<Rightarrow> FirmDetails \<Rightarrow> FirmDetails" where
  "withCurrentNumber n fd =
     fd \<lparr> invoiceFormat :=
            Some (case invoiceFormat fd of
                    None \<Rightarrow> \<lparr> fmt_type = None, startNumber = None, currentNumber = Some n \<rparr>
                  | Some fmt \<Rightarrow> fmt \<lparr> currentNumber := Some n \<rparr>) \<rparr>"

definition updateDoc_firm :: "StoreEnv \<Rightarrow> string \<Rightarrow> int \<Rightarrow> Store \<Rightarrow> Store option" where
  "updateDoc_firm env uid n store =
     (if firmUpdateOk env then
        (case firmDocs store uid of
           None \<Rightarrow> None
         | Some fd \<Rightarrow> Some (store \<lparr> firmDocs := (firmDocs store)(uid \<mapsto> withCurrentNumber n fd) \<rparr>))
      else None)"

section \<open>Saving an invoice (handleSaveInvoice)\<close>

text \<open>The \<open>map\<close> over the items: \<open>docId\<close> and \<open>lineId\<close> are kept when truthy, \<open>gstRate\<close>
  when it is not \<open>undefined\<close>.\<close>

definition sanitizeItem :: "BillItem \<Rightarrow> BillItem" where
  "sanitizeItem item =
     (let cleanProduct = (product item) \<lparr> docId := (if truthy (docId (product item))
                                                    then docId (product item) else None) \<rparr>
      in \<lparr> product = cleanProduct, quantity = quantity item,
           lineId = (if truthy (lineId item) then lineId item else None),
           gstRate = gstRate item \<rparr>)"

text \<open>\<open>finalDataToSave\<close>: the invoice without its \<open>id\<close>, with the sanitized items; the two
  writes add \<open>createdAt\<close> or \<open>updatedAt\<close>.\<close>

definition finalDataToSave :: "InvoiceData \<Rightarrow> InvoiceDoc" where
  "finalDataToSave invoiceData =
     \<lparr> doc_invoiceNumber = invoiceNumber invoiceData, doc_date = date invoiceData,
       doc_customerName = customerName invoiceData, doc_customerPhone = customerPhone invoiceData,
       doc_items = map sanitizeItem (items invoiceData),
       doc_subtotal = subtotal invoiceData, doc_gstAmount = gstAmount invoiceData,
       doc_grandTotal = grandTotal invoiceData, doc_userId = userId invoiceData,
       doc_createdAt = createdAt invoiceData, doc_updatedAt = None \<rparr>"

definition createFields :: "StoreEnv \<Rightarrow> InvoiceDoc \<Rightarrow> InvoiceDoc" where
  "createFields env d = d \<lparr> doc_createdAt := Some (serverTime env) \<rparr>"

text \<open>An update replaces the fields it names; \<open>createdAt\<close> is among them only when the
  invoice carries one.\<close>

definition updateFields :: "StoreEnv \<Rightarrow> InvoiceDoc \<Rightarrow> InvoiceDoc \<Rightarrow> InvoiceDoc" where
  "updateFields env d old =
     d \<lparr> doc_createdAt := (case doc_createdAt d of None \<Rightarrow> doc_createdAt old | Some t \<Rightarrow> Some t),
         doc_updatedAt := Some (serverTime env) \<rparr>"

text \<open>The state updates after the writes: the preview gets the saved id.\<close>

definition afterSave :: "InvoiceData \<Rightarrow> string option \<Rightarrow> AppState \<Rightarrow> AppState" where
  "afterSave invoiceData savedId st =
     st \<lparr> currentInvoice := Some (invoiceData \<lparr> inv_id := savedId \<rparr>),
          editingInvoice := None, view := View_history \<rparr>"

text \<open>\<open>setFirmDetails(prev => prev ? ({...prev, invoiceFormat: {...}}) : null)\<close>\<close>

definition setLocalCurrentNumber :: "int \<Rightarrow> AppState \<Rightarrow> AppState" where
  "setLocalCurrentNumber n st =
     st \<lparr> firmDetails := map_option (withCurrentNumber n) (firmDetails st) \<rparr>"

text \<open>
  The result is \<open>None\<close> for the bare \<open>return\<close> without a user, \<open>Some True\<close> for
  \<open>return true\<close> and \<open>Some False\<close> for the \<open>catch\<close> branch. Every store call sits in the
  one \<open>try\<close> block: a call that fails leaves the effects of the statements before it and
  jumps to the \<open>catch\<close>.
\<close>

definition handleSaveInvoice ::
  "StoreEnv \<Rightarrow> InvoiceData \<Rightarrow> AppState \<Rightarrow> Store \<Rightarrow> bool option \<times> AppState \<times> Store" where
  "handleSaveInvoice env invoiceData st store =
     (case user st of
        None \<Rightarrow> (None, st, store)
      | Some uid \<Rightarrow>
          let d = finalDataToSave invoiceData in
          if truthy (inv_id invoiceData) then
            (case updateDoc_invoice env (the (inv_id invoiceData)) (updateFields env d) store of
               None \<Rightarrow> (Some False, st, store)
             | Some store1 \<Rightarrow> (Some True, afterSave invoiceData (inv_id invoiceData) st, store1))
          else
            (case addDoc_invoice env (createFields env d) store of
               None \<Rightarrow> (Some False, st, store)
             | Some (newId, store1) \<Rightarrow>
                 if isSequential (firmDetails st) then
                   let newCurrentNumber = nextNumber (the (invoiceFormat (the (firmDetails st))));
                       st1 = setLocalCurrentNumber newCurrentNumber st
                   in (case updateDoc_firm env uid newCurrentNumber store1 of
                         None \<Rightarrow> (Some False, st1, store1)
                       | Some store2 \<Rightarrow> (Some True, afterSave invoiceData (Some newId) st1, store2))
                 else (Some True, afterSave invoiceData (Some newId) st, store1)))"

section \<open>One billing round\<close>






definition localFormat :: "AppState \<Rightarrow> InvoiceFormat option" where
  "localFormat st = (case firmDetails st of None \<Rightarrow> None | Some fd \<Rightarrow> invoiceFormat fd)"


section \<open>Customers (handleAddCustomer, handleUpdateCustomer, handleDeleteCustomer)\<close>

text \<open>
  \<open>a.name.localeCompare(b.name)\<close> is the platform's collation; it is a parameter here, a key
  function \<open>collate\<close> into a linear order, and \<open>Array.prototype.sort\<close> with that comparator
  is the stable \<open>sort_key\<close>. The store calls are represented by their outcome: the id
  \<open>addDoc\<close> assigns (\<open>None\<close> when it fails) and whether \<open>updateDoc\<close> or \<open>deleteDoc\<close>
  succeeds.
\<close>

record CustomerInput =
  ci_name :: string
  ci_phone :: "string option"
  ci_address :: "string option"
  ci_gstNumber :: "string option"

text \<open>\<open>Partial<Omit<Customer, 'id' | 'userId'>>\<close>: \<open>None\<close> for a key that is not given.\<close>

record CustomerPatch =
  patch_name :: "string option"
  patch_phone :: "string option"
  patch_address :: "string option"
  patch_gstNumber :: "string option"

definition applyPatch :: "CustomerPatch \<Rightarrow> Customer \<Rightarrow> Customer" where
  "applyPatch data c =
     c \<lparr> c_name := (case patch_name data of None \<Rightarrow> c_name c | Some n \<Rightarrow> n),
         c_phone := (case patch_phone data of None \<Rightarrow> c_phone c | Some v \<Rightarrow> Some v),
         c_address := (case patch_address data of None \<Rightarrow> c_address c | Some v \<Rightarrow> Some v),
         c_gstNumber := (case patch_gstNumber data of None \<Rightarrow> c_gstNumber c | Some v \<Rightarrow> Some v) \<rparr>"

definition sortByName :: "(string \<Rightarrow> 'k::linorder) \<Rightarrow> Customer list \<Rightarrow> Customer list" where
  "sortByName collate cs = sort_key (\<lambda>c. collate (c_name c)) cs"

definition handleAddCustomer ::
  "(string \<Rightarrow> 'k::linorder) \<Rightarrow> string option \<Rightarrow> CustomerInput \<Rightarrow> AppState \<Rightarrow> AppState" where
  "handleAddCustomer collate addResult customer st =
     (case user st of
        None \<Rightarrow> st
      | Some uid \<Rightarrow>
          (case addResult of
             None \<Rightarrow> st
           | Some newId \<Rightarrow>
               let newCustomer = \<lparr> c_id = newId, c_name = ci_name customer,
                                   c_phone = ci_phone customer, c_address = ci_address customer,
                                   c_gstNumber = ci_gstNumber customer, c_userId = uid \<rparr>
               in st \<lparr> customers := sortByName collate (customers st @ [newCustomer]) \<rparr>))"

definition handleUpdateCustomer ::
  "(string \<Rightarrow> 'k::linorder) \<Rightarrow> bool \<Rightarrow> string \<Rightarrow> CustomerPatch \<Rightarrow> AppState \<Rightarrow> AppState" where
  "handleUpdateCustomer collate updateOk cid data st =
     (if updateOk then
        st \<lparr> customers :=
               sortByName collate (map (\<lambda>c. if c_id c = cid then applyPatch data c else c) (customers st)) \<rparr>
      else st)"

definition handleDeleteCustomer :: "bool \<Rightarrow> bool \<Rightarrow> string \<Rightarrow> AppState \<Rightarrow> AppState" where
  "handleDeleteCustomer confirmed deleteOk cid st =
     (if \<not> confirmed then st
      else if deleteOk then st \<lparr> customers := filter (\<lambda>c. c_id c \<noteq> cid) (customers st) \<rparr>
      else st)"

definition sortedByName :: "(string \<Rightarrow> 'k::linorder) \<Rightarrow> Customer list \<Rightarrow> bool" where
  "sortedByName collate cs = sorted (map (\<lambda>c. collate (c_name c)) cs)"

section \<open>Firm setup form (FirmSetup.tsx)\<close>

text \<open>
  The component keeps \<open>displaySettings\<close> as an object that the change handlers update under
  the computed key \<open>[name]\<close>, the name of the input that fired: a map from key to value
  here. \<open>formData\<close> is the same for the plain inputs; of its keys the model of
  \<open>FirmDetails\<close> has \<open>firmName\<close>.
\<close>

datatype SettingValue = Flag bool | Text string

record FirmSetupState =
  formData :: "string \<rightharpoonup> string"
  displaySettingsForm :: "string \<rightharpoonup> SettingValue"

definition checkboxNames :: "string list" where
  "checkboxNames =
     [''showLogoOnHeader'', ''showLogoOnInvoice'', ''showFirmNameOnHeader'',
      ''showFirmNameLocalOnHeader'', ''showFirmNameOnInvoice'', ''showFirmNameLocalOnInvoice'',
      ''showTaglineOnHeader'', ''showTaglineLocalOnHeader'', ''showTaglineOnInvoice'',
      ''showTaglineLocalOnInvoice'', ''showPhoneOnInvoice'', ''showEmailOnInvoice'',
      ''showGstOnInvoice'', ''showAddressOnInvoice'']"

definition textSettingNames :: "string list" where
  "textSettingNames = [''customInvoicePrefix'', ''customHeaderText'', ''customInvoiceText'']"

text \<open>\<open>useState\<close>'s initial values: \<open>existing ?? true\<close> for a toggle, \<open>existing || ''\<close> for a
  text.\<close>

definition initialState :: "FirmDetails option \<Rightarrow> FirmSetupState" where
  "initialState existingDetails =
     (let ds = (case existingDetails of None \<Rightarrow> None | Some fd \<Rightarrow> displaySettings fd);
          toggle = (\<lambda>n. case ds of None \<Rightarrow> True
                          | Some d \<Rightarrow> (case toggles d n of None \<Rightarrow> True | Some b \<Rightarrow> b));
          text = (\<lambda>get. case ds of None \<Rightarrow> []
                          | Some d \<Rightarrow> (case get d of None \<Rightarrow> [] | Some t \<Rightarrow> t))
      in \<lparr> formData = [''firmName'' \<mapsto> (case existingDetails of None \<Rightarrow> [] | Some fd \<Rightarrow> firmName fd)],
           displaySettingsForm =
             (\<lambda>n. if n \<in> set checkboxNames then Some (Flag (toggle n))
                  else if n = ''customInvoicePrefix'' then Some (Text (text customInvoicePrefix))
                  else if n = ''customHeaderText'' then Some (Text (text customHeaderText))
                  else if n = ''customInvoiceText'' then Some (Text (text customInvoiceText))
                  else None) \<rparr>)"

definition handleInputChange :: "string \<Rightarrow> string \<Rightarrow> FirmSetupState \<Rightarrow> FirmSetupState" where
  "handleInputChange name val fs = fs \<lparr> formData := (formData fs)(name \<mapsto> val) \<rparr>"

definition handleCheckboxChange :: "string \<Rightarrow> bool \<Rightarrow> FirmSetupState \<Rightarrow> FirmSetupState" where
  "handleCheckboxChange name checked fs =
     fs \<lparr> displaySettingsForm := (displaySettingsForm fs)(name \<mapsto> Flag checked) \<rparr>"

definition handleDisplaySettingTextChange ::
  "string \<Rightarrow> string \<Rightarrow> FirmSetupState \<Rightarrow> FirmSetupState" where
  "handleDisplaySettingTextChange name val fs =
     (if name = ''customInvoicePrefix'' then
        let sanitized = substring0 10 (toUpperCase (stripNonAlnum val))
        in fs \<lparr> displaySettingsForm := (displaySettingsForm fs)(name \<mapsto> Text sanitized) \<rparr>
      else fs \<lparr> displaySettingsForm := (displaySettingsForm fs)(name \<mapsto> Text val) \<rparr>)"

text \<open>The change events of the form; each input fires the handler it is wired to, with its
  own name.\<close>

datatype FormEvent =
    InputChange string string
  | CheckboxChange string bool
  | DisplaySettingTextChange string string

fun handleEvent :: "FirmSetupState \<Rightarrow> FormEvent \<Rightarrow> FirmSetupState" where
  "handleEvent fs (InputChange name val) = handleInputChange name val fs"
| "handleEvent fs (CheckboxChange name checked) = handleCheckboxChange name checked fs"
| "handleEvent fs (DisplaySettingTextChange name val) = handleDisplaySettingTextChange name val fs"

fun firedByForm :: "FormEvent \<Rightarrow> bool" where
  "firedByForm (InputChange name val) = True"
| "firedByForm (CheckboxChange name checked) = (name \<in> set checkboxNames)"
| "firedByForm (DisplaySettingTextChange name val) = (name \<in> set textSettingNames)"

definition textOf :: "(string \<rightharpoonup> SettingValue) \<Rightarrow> string \<Rightarrow> string option" where
  "textOf form name = (case form name of Some (Text t) \<Rightarrow> Some t | _ \<Rightarrow> None)"

definition flagOf :: "(string \<rightharpoonup> SettingValue) \<Rightarrow> string \<Rightarrow> bool option" where
  "flagOf form name = (case form name of Some (Flag b) \<Rightarrow> Some b | _ \<Rightarrow> None)"

text \<open>\<open>handleSubmit\<close>: \<open>firmDetails.displaySettings = displaySettings\<close>, then \<open>setDoc\<close>
  writes the whole document under the user's id and \<open>onComplete\<close> receives it. \<open>submitOk\<close>
  is whether the \<open>try\<close> block runs through; the result is the document handed to
  \<open>onComplete\<close>.\<close>

definition handleSubmit ::
  "bool \<Rightarrow> string \<Rightarrow> FirmSetupState \<Rightarrow> Store \<Rightarrow> FirmDetails option \<times> Store" where
  "handleSubmit submitOk uid fs store =
     (if submitOk then
        let fd = \<lparr> firm_userId = uid,
                   firmName = (case formData fs ''firmName'' of None \<Rightarrow> [] | Some n \<Rightarrow> n),
                   displaySettings =
                     Some \<lparr> toggles = flagOf (displaySettingsForm fs),
                            customInvoicePrefix = textOf (displaySettingsForm fs) ''customInvoicePrefix'',
                            customHeaderText = textOf (displaySettingsForm fs) ''customHeaderText'',
                            customInvoiceText = textOf (displaySettingsForm fs) ''customInvoiceText'' \<rparr>,
                   invoiceFormat = None \<rparr>
        in (Some fd, store \<lparr> firmDocs := (firmDocs store)(uid \<mapsto> fd) \<rparr>)
      else (None, store))"

text \<open>Uppercase alphanumeric, at most 10 characters.\<close>

definition isUpperAlnum :: "char \<Rightarrow> bool" where
  "isUpperAlnum c = (let n = (of_char c :: nat) in (48 \<le> n \<and> n \<le> 57) \<or> (65 \<le> n \<and> n \<le> 90))"

definition validPrefix :: "string \<Rightarrow> bool" where
  "validPrefix p = (length p \<le> 10 \<and> list_all isUpperAlnum p)"

definition existingPrefixValid :: "FirmDetails option \<Rightarrow> bool" where
  "existingPrefixValid existingDetails =
     (case prefixOf existingDetails of None \<Rightarrow> True | Some p \<Rightarrow> validPrefix p)"

section \<open>The specification's formulas\<close>

text \<open>The definitions of this section follow the specification's words, not the code; the
  theorems compare the code with them.\<close>

text \<open>A sum taken from left to right in double arithmetic, starting from 0: the sum of
  no terms is 0, and the sum up to a term is the rounded sum of the sum before it and the
  term (\<open>spec_sumRev\<close> reads the terms last first).\<close>

fun spec_sumRev :: "jsnum list \<Rightarrow> jsnum" where
  "spec_sumRev [] = Fin 0"
| "spec_sumRev (x # earlier) = fadd (spec_sumRev earlier) x"

definition spec_flSum :: "jsnum list \<Rightarrow> jsnum" where
  "spec_flSum xs = spec_sumRev (rev xs)"

text \<open>The specification's \<open>next = (currentNumber ?? (startNumber - 1)) + 1\<close>, for a firm whose
  start number is given.\<close>

definition spec_nextNumber :: "int option \<Rightarrow> int \<Rightarrow> int" where
  "spec_nextNumber current start = (case current of Some c \<Rightarrow> c | None \<Rightarrow> start - 1) + 1"

text \<open>\<open>{prefix}-{next}\<close> with a custom prefix, the bare number without; a prefix left
  blank in the setup form is stored as the empty string.\<close>

definition spec_formatSequential :: "string option \<Rightarrow> int \<Rightarrow> string" where
  "spec_formatSequential prefix n =
     (case prefix of
        None \<Rightarrow> numToString n
      | Some p \<Rightarrow> if p = [] then numToString n else p @ ''-'' @ numToString n)"

text \<open>The words of a name: its maximal runs of characters that are not white space.\<close>

fun spec_words :: "string \<Rightarrow> string list" where
  "spec_words [] = []"
| "spec_words (c # cs) =
     (if isWhiteSpace c then spec_words cs
      else if cs = [] \<or> isWhiteSpace (hd cs) then [c] # spec_words cs
      else (case spec_words cs of [] \<Rightarrow> [[c]] | w # ws \<Rightarrow> (c # w) # ws))"

text \<open>The derivation rule: strip and uppercase each word; one word gives its first 4
  characters, two words the first 2 of each, three or more the first letter of each of the
  first 5; \<open>INV\<close> when that is empty.\<close>

definition spec_derivedPrefix :: "string \<Rightarrow> string" where
  "spec_derivedPrefix name =
     (let ws = map (\<lambda>w. toUpperCase (stripNonAlnum w)) (spec_words name);
          p = (case ws of
                 [] \<Rightarrow> []
               | [w] \<Rightarrow> take 4 w
               | [w1, w2] \<Rightarrow> take 2 w1 @ take 2 w2
               | _ \<Rightarrow> concat (map (take 1) (take 5 ws)))
      in if p = [] then ''INV'' else p)"

text \<open>The prefix field of the form holds a text that is a valid prefix.\<close>

definition prefixFieldValid :: "FirmSetupState \<Rightarrow> bool" where
  "prefixFieldValid fs =
     (case displaySettingsForm fs ''customInvoicePrefix'' of
        Some (Text p) \<Rightarrow> validPrefix p
      | _ \<Rightarrow> False)"

section \<open>Example data\<close>

text \<open>The double nearest to 0.18.\<close>

definition demoGstRate :: jsnum where
  "demoGstRate = Fin (3242591731706757 / 18014398509481984)"

definition demoUser :: AppState where
  "demoUser = \<lparr> user = Some ''u1'', view = View_form, currentInvoice = None,
     editingInvoice = None, customers = [], firmDetails = None \<rparr>"

definition demoFormatZero :: InvoiceFormat where
  "demoFormatZero = \<lparr> fmt_type = Some ''sequential'', startNumber = Some 0, currentNumber = None \<rparr>"

definition demoFirmZero :: FirmDetails where
  "demoFirmZero = \<lparr> firm_userId = ''u1'', firmName = ''Shree Oil Mill'',
     displaySettings = None, invoiceFormat = Some demoFormatZero \<rparr>"

definition demoSeqZero :: AppState where
  "demoSeqZero = demoUser \<lparr> firmDetails := Some demoFirmZero \<rparr>"

definition demoFormatFresh :: InvoiceFormat where
  "demoFormatFresh = \<lparr> fmt_type = Some ''sequential'', startNumber = Some 101, currentNumber = None \<rparr>"

definition demoFormat :: InvoiceFormat where
  "demoFormat = \<lparr> fmt_type = Some ''sequential'', startNumber = Some 101, currentNumber = Some 7 \<rparr>"

definition demoSettings :: DisplaySettings where
  "demoSettings = \<lparr> toggles = Map.empty, customInvoicePrefix = Some ''SOM'',
     customHeaderText = None, customInvoiceText = None \<rparr>"

definition demoFirm :: FirmDetails where
  "demoFirm = \<lparr> firm_userId = ''u1'', firmName = ''Shree Oil Mill'',
     displaySettings = Some demoSettings, invoiceFormat = Some demoFormat \<rparr>"

definition demoSeq :: AppState where
  "demoSeq = demoUser \<lparr> firmDetails := Some demoFirm \<rparr>"

definition demoFirmFresh :: FirmDetails where
  "demoFirmFresh = demoFirm \<lparr> invoiceFormat := Some demoFormatFresh \<rparr>"

definition demoSeqFresh :: AppState where
  "demoSeqFresh = demoUser \<lparr> firmDetails := Some demoFirmFresh \<rparr>"

definition demoFreeFirm :: FirmDetails where
  "demoFreeFirm = \<lparr> firm_userId = ''u1'', firmName = ''Shree Oil Mill'',
     displaySettings = None, invoiceFormat = None \<rparr>"

definition demoFree :: AppState where
  "demoFree = demoUser \<lparr> firmDetails := Some demoFreeFirm \<rparr>"

definition demoItems :: "BillItem list" where
  "demoItems =
     [\<lparr>product = \<lparr>p_id = 1, p_name = ''Oil'', price = Fin 100, docId = Some ''p1''\<rparr>,
        quantity = Fin 2, lineId = Some [], gstRate = Some (Fin 5)\<rparr>,
      \<lparr>product = \<lparr>p_id = 2, p_name = ''Ghee'', price = Fin 50, docId = None\<rparr>,
        quantity = Fin 1, lineId = Some ''2-a'', gstRate = Some (Fin 18)\<rparr>]"

text \<open>One item at the double nearest to 0.1, three of it; one item at 100 taxed at 7 percent.\<close>

definition demoTenthItems :: "BillItem list" where
  "demoTenthItems =
     [\<lparr>product = \<lparr>p_id = 3, p_name = ''Salt'', price = Fin (3602879701896397 / 36028797018963968),
          docId = None\<rparr>,
        quantity = Fin 3, lineId = None, gstRate = Some (Fin 5)\<rparr>]"

definition demoSevenItems :: "BillItem list" where
  "demoSevenItems =
     [\<lparr>product = \<lparr>p_id = 4, p_name = ''Soap'', price = Fin 100, docId = None\<rparr>,
        quantity = Fin 1, lineId = None, gstRate = Some (Fin 7)\<rparr>]"

definition demoPreview :: InvoiceData where
  "demoPreview = \<lparr> inv_id = None, invoiceNumber = ''SOM-8'', date = 0, customerName = ''Asha'',
     customerPhone = ''98250'', items = demoItems, subtotal = Fin 250,
     gstAmount = Fin 19, grandTotal = Fin 269, userId = ''u1'', createdAt = None \<rparr>"

definition demoStored :: InvoiceData where
  "demoStored = demoPreview \<lparr> inv_id := Some ''inv7'', invoiceNumber := ''SOM-7'' \<rparr>"

definition demoStore :: Store where
  "demoStore = \<lparr> invoices = [''inv7'' \<mapsto> finalDataToSave demoStored], firmDocs = [''u1'' \<mapsto> demoFirm] \<rparr>"

definition demoEnv :: StoreEnv where
  "demoEnv = \<lparr> serverTime = 1700000000500, newDocId = Some ''inv8'', invoiceUpdateOk = True,
     firmUpdateOk = True \<rparr>"

definition demoEnvAddFails :: StoreEnv where
  "demoEnvAddFails = demoEnv \<lparr> newDocId := None \<rparr>"

definition demoEnvCounterFails :: StoreEnv where
  "demoEnvCounterFails = demoEnv \<lparr> firmUpdateOk := False \<rparr>"

definition demoSaved :: "bool option \<times> AppState \<times> Store" where
  "demoSaved = handleSaveInvoice demoEnv demoPreview demoSeq demoStore"

definition demoCustomers :: "Customer list" where
  "demoCustomers =
     [\<lparr> c_id = ''c1'', c_name = ''Asha'', c_phone = None, c_address = None, c_gstNumber = None,
        c_userId = ''u1'' \<rparr>,
      \<lparr> c_id = ''c2'', c_name = ''Bhavin'', c_phone = Some ''98250'', c_address = None,
        c_gstNumber = None, c_userId = ''u1'' \<rparr>]"

definition demoShop :: AppState where
  "demoShop = demoUser \<lparr> customers := demoCustomers \<rparr>"

definition demoNewCustomer :: CustomerInput where
  "demoNewCustomer = \<lparr> ci_name = ''Amit'', ci_phone = None, ci_address = None, ci_gstNumber = None \<rparr>"

definition demoPatch :: CustomerPatch where
  "demoPatch = \<lparr> patch_name = Some ''Chetan'', patch_phone = None, patch_address = None,
     patch_gstNumber = None \<rparr>"

definition demoEvents :: "FormEvent list" where
  "demoEvents =
     [InputChange ''firmName'' ''Shree Oil Mill'',
      DisplaySettingTextChange ''customInvoicePrefix'' ''som-2024/25 extra'',
      CheckboxChange ''showLogoOnHeader'' False,
      DisplaySettingTextChange ''customHeaderText'' ''Since 1990'']"

definition demoSubmitted :: "FirmDetails option \<times> Store" where
  "demoSubmitted = handleSubmit True ''u1'' (foldl handleEvent (initialState None) demoEvents) demoStore"







section \<open>Bill totals\<close>

lemma floor_rat_numeral_divide:
  "\<lfloor>numeral a / numeral b :: rat\<rfloor> = numeral a div numeral b"
  by (metis floor_divide_of_int_eq of_int_numeral)

lemma floor_rat_one_divide:
  "\<lfloor>1 / numeral b :: rat\<rfloor> = 1 div numeral b"
  by (metis floor_divide_of_int_eq of_int_numeral of_int_1)

lemmas roundDouble_eval =
  floor_rat_numeral_divide floor_rat_one_divide roundDouble_def scaleDown.simps scaleUp.simps
  roundTiesToEven_def pow2_def Let_def

text \<open>The rounding at work: 0.1 and 0.07 are not doubles; a tie goes to the even
  significand, down at \<open>2^53 + 1\<close> and up at \<open>2^53 + 3\<close>; integers of ordinary size are
  exact.\<close>

lemma roundDouble_examples:
  "roundDouble (1 / 10) = Fin (3602879701896397 / 36028797018963968)"
  "roundDouble (7 / 100) = Fin (1261007895663739 / 18014398509481984)"
  "roundDouble 9007199254740993 = Fin 9007199254740992"
  "roundDouble 9007199254740995 = Fin 9007199254740996"
  "roundDouble (- 9007199254740993) = Fin (- 9007199254740992)"
  "roundDouble 269 = Fin 269"
  "roundDouble (1 / 4) = Fin (1 / 4)"
  by (simp_all add: roundDouble_eval)

lemma foldl_spec_flSum:
  "foldl (\<lambda>acc x. fadd acc (f x)) (Fin 0) xs = spec_flSum (map f xs)"
  by (induction xs rule: rev_induct) (simp_all add: spec_flSum_def)

lemma calcSubtotal_sum:
  "calcSubtotal xs = spec_flSum (map (\<lambda>item. fmul (price (product item)) (quantity item)) xs)"
  by (simp add: calcSubtotal_def foldl_spec_flSum)

lemma calcGstAmount_sum:
  "calcGstAmount G xs =
     spec_flSum (map (\<lambda>item. fmul (fmul (price (product item)) (quantity item))
                        (fdiv100 (case gstRate item of Some r \<Rightarrow> r | None \<Rightarrow> fmul G (Fin 100)))) xs)"
  by (simp add: calcGstAmount_def foldl_spec_flSum Let_def)

lemma generated_totals:
  assumes "user st = Some uid"
  shows "\<exists>inv. currentInvoice (handleGenerateBill G now cn cp billItems d st) = Some inv
      \<and> subtotal inv = calcSubtotal billItems \<and> gstAmount inv = calcGstAmount G billItems
      \<and> grandTotal inv = fadd (calcSubtotal billItems) (calcGstAmount G billItems)"
  using assms by (simp add: handleGenerateBill_def Let_def)

lemma example_totals:
  "calcSubtotal
     [\<lparr>product = \<lparr>p_id = i1, p_name = n1, price = Fin 100, docId = d1\<rparr>, quantity = Fin 2,
        lineId = l1, gstRate = Some (Fin 5)\<rparr>,
      \<lparr>product = \<lparr>p_id = i2, p_name = n2, price = Fin 50, docId = d2\<rparr>, quantity = Fin 1,
        lineId = l2, gstRate = Some (Fin 18)\<rparr>] = Fin 250"
  "calcGstAmount G
     [\<lparr>product = \<lparr>p_id = i1, p_name = n1, price = Fin 100, docId = d1\<rparr>, quantity = Fin 2,
        lineId = l1, gstRate = Some (Fin 5)\<rparr>,
      \<lparr>product = \<lparr>p_id = i2, p_name = n2, price = Fin 50, docId = d2\<rparr>, quantity = Fin 1,
        lineId = l2, gstRate = Some (Fin 18)\<rparr>] = Fin 19"
  "fadd (Fin 250) (Fin 19) = Fin 269"
  by (simp_all add: calcSubtotal_def calcGstAmount_def roundDouble_eval)

text \<open>
  C1, as stated, on one item at 0.1 (the double nearest to it), three of it: price times
  quantity is \<open>10808639105689191 / 2^55\<close>, and the subtotal of the preview is the double
  0.30000000000000004. On one item at 100 taxed at 7 percent the tax is the double
  7.000000000000001, not 7, and the grand total is 107, not the sum of subtotal and tax.
\<close>

theorem bill_totals_exact_counterexample:
  "isNumber (Fin (3602879701896397 / 36028797018963968))
   \<and> map_option subtotal
        (currentInvoice (handleGenerateBill demoGstRate 1700000000000 ''Asha'' ''98250'' demoTenthItems 0 demoUser))
       = Some (Fin (1351079888211149 / 4503599627370496))
   \<and> (3602879701896397 / 36028797018963968 * 3 :: rat) \<noteq> 1351079888211149 / 4503599627370496
   \<and> map_option subtotal
        (currentInvoice (handleGenerateBill demoGstRate 1700000000000 ''Asha'' ''98250'' demoSevenItems 0 demoUser))
       = Some (Fin 100)
   \<and> map_option gstAmount
        (currentInvoice (handleGenerateBill demoGstRate 1700000000000 ''Asha'' ''98250'' demoSevenItems 0 demoUser))
       = Some (Fin (7881299347898369 / 1125899906842624))
   \<and> (100 * 1 * (7 / 100) :: rat) \<noteq> 7881299347898369 / 1125899906842624
   \<and> map_option grandTotal
        (currentInvoice (handleGenerateBill demoGstRate 1700000000000 ''Asha'' ''98250'' demoSevenItems 0 demoUser))
       = Some (Fin 107)
   \<and> (100 + 7881299347898369 / 1125899906842624 :: rat) \<noteq> 107"
  by (simp add: isNumber_def handleGenerateBill_def calcSubtotal_def calcGstAmount_def
      demoUser_def demoTenthItems_def demoSevenItems_def roundDouble_eval)

text \<open>
  C1, amended. For a logged-in user and every list of line items, the preview that
  \<open>handleGenerateBill\<close> stores has its totals computed in double arithmetic, every product,
  quotient and sum rounded to the nearest double: \<open>subtotal\<close> is the left-to-right sum,
  from 0, of the products price times quantity; \<open>gstAmount\<close> is the left-to-right sum of
  (price times quantity) times (rate / 100), the rate being the item's \<open>gstRate\<close> when
  present and the default percentage \<open>GST_RATE * 100\<close> otherwise; \<open>grandTotal\<close> is the
  rounded sum of the two. The empty list gives zero three times. The items
  (100, 2, 5 percent) and (50, 1, 18 percent) give 250, 19 and 269.
\<close>

theorem bill_totals_rounded:
  assumes "user st = Some uid"
  shows "(\<exists>inv. currentInvoice (handleGenerateBill GST_RATE now cn cp billItems d st) = Some inv
            \<and> subtotal inv =
                spec_flSum (map (\<lambda>item. fmul (price (product item)) (quantity item)) billItems)
            \<and> gstAmount inv =
                spec_flSum (map (\<lambda>item. fmul (fmul (price (product item)) (quantity item))
                                   (fdiv100 (case gstRate item of
                                               Some r \<Rightarrow> r
                                             | None \<Rightarrow> fmul GST_RATE (Fin 100)))) billItems)
            \<and> grandTotal inv = fadd (subtotal inv) (gstAmount inv))
       \<and> (\<exists>inv. currentInvoice (handleGenerateBill GST_RATE now cn cp [] d st) = Some inv
            \<and> subtotal inv = Fin 0 \<and> gstAmount inv = Fin 0 \<and> grandTotal inv = Fin 0)
       \<and> (\<exists>inv. currentInvoice (handleGenerateBill GST_RATE now cn cp
               [\<lparr>product = \<lparr>p_id = i1, p_name = n1, price = Fin 100, docId = d1\<rparr>, quantity = Fin 2,
                  lineId = l1, gstRate = Some (Fin 5)\<rparr>,
                \<lparr>product = \<lparr>p_id = i2, p_name = n2, price = Fin 50, docId = d2\<rparr>, quantity = Fin 1,
                  lineId = l2, gstRate = Some (Fin 18)\<rparr>] d st) = Some inv
            \<and> subtotal inv = Fin 250 \<and> gstAmount inv = Fin 19 \<and> grandTotal inv = Fin 269)"
proof (intro conjI)
  show "\<exists>inv. currentInvoice (handleGenerateBill GST_RATE now cn cp billItems d st) = Some inv
            \<and> subtotal inv =
                spec_flSum (map (\<lambda>item. fmul (price (product item)) (quantity item)) billItems)
            \<and> gstAmount inv =
                spec_flSum (map (\<lambda>item. fmul (fmul (price (product item)) (quantity item))
                                   (fdiv100 (case gstRate item of
                                               Some r \<Rightarrow> r
                                             | None \<Rightarrow> fmul GST_RATE (Fin 100)))) billItems)
            \<and> grandTotal inv = fadd (subtotal inv) (gstAmount inv)"
    using generated_totals [OF assms, of GST_RATE now cn cp billItems d]
    by (auto simp: calcSubtotal_sum calcGstAmount_sum)
next
  show "\<exists>inv. currentInvoice (handleGenerateBill GST_RATE now cn cp [] d st) = Some inv
            \<and> subtotal inv = Fin 0 \<and> gstAmount inv = Fin 0 \<and> grandTotal inv = Fin 0"
    using generated_totals [OF assms, of GST_RATE now cn cp "[]" d]
    by (auto simp: calcSubtotal_def calcGstAmount_def roundDouble_def)
next
  show "\<exists>inv. currentInvoice (handleGenerateBill GST_RATE now cn cp
               [\<lparr>product = \<lparr>p_id = i1, p_name = n1, price = Fin 100, docId = d1\<rparr>, quantity = Fin 2,
                  lineId = l1, gstRate = Some (Fin 5)\<rparr>,
                \<lparr>product = \<lparr>p_id = i2, p_name = n2, price = Fin 50, docId = d2\<rparr>, quantity = Fin 1,
                  lineId = l2, gstRate = Some (Fin 18)\<rparr>] d st) = Some inv
            \<and> subtotal inv = Fin 250 \<and> gstAmount inv = Fin 19 \<and> grandTotal inv = Fin 269"
    using generated_totals [OF assms, of GST_RATE now cn cp
        "[\<lparr>product = \<lparr>p_id = i1, p_name = n1, price = Fin 100, docId = d1\<rparr>, quantity = Fin 2,
            lineId = l1, gstRate = Some (Fin 5)\<rparr>,
          \<lparr>product = \<lparr>p_id = i2, p_name = n2, price = Fin 50, docId = d2\<rparr>, quantity = Fin 1,
            lineId = l2, gstRate = Some (Fin 18)\<rparr>]" d]
    by (simp only: example_totals)
qed

theorem bill_totals_rounded_witness:
  "user demoUser = Some ''u1'' \<and>
   (\<exists>inv. currentInvoice (handleGenerateBill demoGstRate 1700000000000 ''Asha'' ''98250''
             [\<lparr>product = \<lparr>p_id = 1, p_name = ''Oil'', price = Fin 100, docId = None\<rparr>, quantity = Fin 2,
                lineId = None, gstRate = Some (Fin 5)\<rparr>,
              \<lparr>product = \<lparr>p_id = 2, p_name = ''Ghee'', price = Fin 50, docId = None\<rparr>, quantity = Fin 1,
                lineId = None, gstRate = Some (Fin 18)\<rparr>] 0 demoUser) = Some inv
       \<and> subtotal inv = Fin 250 \<and> gstAmount inv = Fin 19 \<and> grandTotal inv = Fin 269)"
proof -
  have h: "user demoUser = Some ''u1''"
    by (simp add: demoUser_def)
  from bill_totals_rounded [OF h, of demoGstRate 1700000000000 "''Asha''" "''98250''" "[]" 0
      1 "''Oil''" None None 2 "''Ghee''" None None]
  show ?thesis using h by blast
qed

section \<open>Sequential numbering\<close>

lemma numToString_small:
  "numToString 0 = ''0''" "numToString 1 = ''1''" "numToString 8 = ''8''" "numToString 9 = ''9''"
  "numToString 101 = ''101''" "numToString 102 = ''102''"
  by (simp_all add: numToString_def natToString.simps digitChar_def)

lemma generated_number:
  assumes "user st = Some uid"
  shows "\<exists>inv. currentInvoice (handleGenerateBill G now cn cp billItems d st) = Some inv
      \<and> invoiceNumber inv = generateInvoiceNumber now st
      \<and> inv_id inv = (case editingInvoice st of None \<Rightarrow> None
                       | Some e \<Rightarrow> if truthy (inv_id e) then inv_id e else None)"
  using assms by (simp add: handleGenerateBill_def Let_def)



text \<open>
  C2. The code at a firm with sequential numbering, start number 0 and no current number:
  the first invoice is numbered 1, where the rule
  next = (currentNumber if present, else startNumber - 1) + 1, which is also the rule of
  the code's own comment (current + 1, or startNumber if no current), gives 0. The code
  reads \<open>startNumber || 1\<close>, which takes a start number of 0 for a missing one. At a start
  number of 101 and no current number the code follows the rule: the first invoice is
  numbered with 101, after the firm's custom prefix.
\<close>

theorem sequential_start_zero_numbers_one:
  "user demoSeqZero = Some ''u1'' \<and> editingInvoice demoSeqZero = None
   \<and> isSequential (firmDetails demoSeqZero)
   \<and> map_option startNumber (localFormat demoSeqZero) = Some (Some 0)
   \<and> map_option currentNumber (localFormat demoSeqZero) = Some None
   \<and> map_option invoiceNumber
        (currentInvoice (handleGenerateBill demoGstRate 1700000000000 ''Asha'' ''98250'' [] 0 demoSeqZero))
      = Some ''1''
   \<and> spec_formatSequential (prefixOf (firmDetails demoSeqZero)) (spec_nextNumber None 0) = ''0''
   \<and> map_option startNumber (localFormat demoSeqFresh) = Some (Some 101)
   \<and> map_option currentNumber (localFormat demoSeqFresh) = Some None
   \<and> map_option invoiceNumber
        (currentInvoice (handleGenerateBill demoGstRate 1700000000000 ''Asha'' ''98250'' [] 0 demoSeqFresh))
      = Some ''SOM-101''
   \<and> spec_formatSequential (prefixOf (firmDetails demoSeqFresh)) (spec_nextNumber None 101) = ''SOM-101''"
  by (simp add: demoSeqZero_def demoSeqFresh_def demoUser_def demoFirmZero_def demoFirmFresh_def
      demoFirm_def demoFormatZero_def demoFormatFresh_def demoSettings_def isSequential_def localFormat_def
      handleGenerateBill_def generateInvoiceNumber_def nextNumber_def startOrOne_def prefixOf_def
      truthy_def spec_formatSequential_def spec_nextNumber_def numToString_small Let_def)

section \<open>Freeform numbering: the derived prefix\<close>

lemma alnum_not_space: "isAlnum c \<Longrightarrow> \<not> isWhiteSpace c"
  by (auto simp: isAlnum_def isWhiteSpace_def Let_def)

lemma filter_dropWhile_disjoint:
  "(\<And>x. P x \<Longrightarrow> \<not> Q x) \<Longrightarrow> filter P (dropWhile Q xs) = filter P xs"
  by (induction xs) auto

lemma stripNonAlnum_trim: "stripNonAlnum (trim s) = stripNonAlnum s"
proof -
  have "filter isAlnum (rev (dropWhile isWhiteSpace (rev (dropWhile isWhiteSpace s))))
        = rev (filter isAlnum (dropWhile isWhiteSpace (rev (dropWhile isWhiteSpace s))))"
    by (simp add: rev_filter)
  also have "\<dots> = rev (filter isAlnum (rev (dropWhile isWhiteSpace s)))"
    by (simp add: filter_dropWhile_disjoint alnum_not_space)
  also have "\<dots> = filter isAlnum (dropWhile isWhiteSpace s)"
    by (simp add: rev_filter)
  also have "\<dots> = filter isAlnum s"
    by (simp add: filter_dropWhile_disjoint alnum_not_space)
  finally show ?thesis by (simp add: stripNonAlnum_def trim_def)
qed

lemma spec_words_dropWhile: "spec_words (dropWhile isWhiteSpace s) = spec_words s"
  by (induction s) auto

lemma spec_words_snoc_space: "isWhiteSpace c \<Longrightarrow> spec_words (s @ [c]) = spec_words s"
proof (induction s)
  case Nil
  then show ?case by simp
next
  case (Cons x xs)
  then show ?case by (cases "xs = []") (simp_all add: hd_append)
qed

lemma spec_words_rev_dropWhile: "spec_words (rev (dropWhile isWhiteSpace r)) = spec_words (rev r)"
  by (induction r) (auto simp: spec_words_snoc_space)

lemma spec_words_trim: "spec_words (trim s) = spec_words s"
  using spec_words_rev_dropWhile [of "rev (dropWhile isWhiteSpace s)"]
  by (simp add: trim_def spec_words_dropWhile)

lemma spec_words_solid:
  "cur \<noteq> [] \<Longrightarrow> \<forall>x\<in>set cur. \<not> isWhiteSpace x \<Longrightarrow> spec_words cur = [cur]"
proof (induction cur)
  case Nil
  then show ?case by simp
next
  case (Cons x xs)
  then show ?case by (cases xs) auto
qed

lemma spec_words_solid_space:
  "cur \<noteq> [] \<Longrightarrow> \<forall>x\<in>set cur. \<not> isWhiteSpace x \<Longrightarrow> isWhiteSpace c
     \<Longrightarrow> spec_words (cur @ c # cs) = cur # spec_words cs"
proof (induction cur)
  case Nil
  then show ?case by simp
next
  case (Cons x xs)
  then show ?case by (cases xs) auto
qed

lemma splitWhitespace_words:
  "\<forall>x\<in>set cur. \<not> isWhiteSpace x \<Longrightarrow> (t \<noteq> [] \<Longrightarrow> \<not> isWhiteSpace (last t))
     \<Longrightarrow> (cur = [] \<Longrightarrow> t \<noteq> [] \<and> \<not> isWhiteSpace (hd t))
     \<Longrightarrow> splitWhitespace cur t = spec_words (cur @ t)"
proof (induction cur t rule: splitWhitespace.induct)
  case (1 cur)
  then have "cur \<noteq> []" by auto
  with 1(1) show ?case by (simp add: spec_words_solid)
next
  case (2 cur c cs)
  show ?case
  proof (cases "isWhiteSpace c")
    case True
    with 2 have cur: "cur \<noteq> []" by auto
    from True 2(4) have cs: "cs \<noteq> []" "\<not> isWhiteSpace (last cs)" by (auto split: if_splits)
    then have "\<exists>x\<in>set cs. \<not> isWhiteSpace x" using last_in_set by blast
    then have d: "dropWhile isWhiteSpace cs \<noteq> []" by (simp add: dropWhile_eq_Nil_conv)
    then have hd: "\<not> isWhiteSpace (hd (dropWhile isWhiteSpace cs))" by (rule hd_dropWhile)
    have "last (dropWhile isWhiteSpace cs) = last cs" using d
      by (metis last_appendR takeWhile_dropWhile_id)
    with cs have l: "\<not> isWhiteSpace (last (dropWhile isWhiteSpace cs))" by simp
    have "splitWhitespace [] (dropWhile isWhiteSpace cs) = spec_words ([] @ dropWhile isWhiteSpace cs)"
      using 2(1) [OF True] d hd l by simp
    then show ?thesis using True cur 2(3)
      by (simp add: spec_words_solid_space spec_words_dropWhile)
  next
    case False
    have "splitWhitespace (cur @ [c]) cs = spec_words ((cur @ [c]) @ cs)"
      using 2(2) [OF False] 2(3,4) False by (auto split: if_splits)
    then show ?thesis using False by simp
  qed
qed

lemma trim_ends:
  assumes "trim s \<noteq> []"
  shows "\<not> isWhiteSpace (hd (trim s))" and "\<not> isWhiteSpace (last (trim s))"
proof -
  let ?d = "dropWhile isWhiteSpace s"
  let ?r = "dropWhile isWhiteSpace (rev ?d)"
  from assms have r: "?r \<noteq> []" by (simp add: trim_def)
  then have "\<not> isWhiteSpace (hd ?r)" by (rule hd_dropWhile)
  then show "\<not> isWhiteSpace (last (trim s))" using r by (simp add: trim_def last_rev)
  have d: "?d \<noteq> []"
  proof
    assume "?d = []"
    with r show False by simp
  qed
  then have hd: "\<not> isWhiteSpace (hd ?d)" by (rule hd_dropWhile)
  have "\<exists>ys. rev ?d = ys @ ?r" by (metis takeWhile_dropWhile_id)
  then obtain ys where "rev ?d = ys @ ?r" ..
  then have "?d = rev ?r @ rev ys" by (metis rev_append rev_rev_ident)
  then have "hd ?d = hd (rev ?r)" using r by (metis hd_append2 rev_is_Nil_conv)
  with hd show "\<not> isWhiteSpace (hd (trim s))" by (simp add: trim_def)
qed

lemma words_of_name:
  assumes "trim s \<noteq> []"
  shows "splitWhitespace [] (trim s) = spec_words s"
  using splitWhitespace_words [of "[]" "trim s"] trim_ends [OF assms] assms
  by (simp add: spec_words_trim)

lemma spec_words_blank: "trim s = [] \<Longrightarrow> spec_words s = []"
  using spec_words_trim [of s] by simp


lemma splitWhitespace_nonempty: "splitWhitespace cur t \<noteq> []"
  by (induction cur t rule: splitWhitespace.induct) auto

lemma splitWhitespace_single: "splitWhitespace cur t = [w] \<Longrightarrow> w = cur @ t"
  by (induction cur t rule: splitWhitespace.induct)
     (auto simp: splitWhitespace_nonempty split: if_splits)

lemma toUpperCase_concat: "toUpperCase (concat xs) = concat (map toUpperCase xs)"
  by (induction xs) (simp_all add: toUpperCase_def)

lemma first_letters:
  "toUpperCase (concat (List.map_filter (\<lambda>c. if truthy c then c else None)
       (map (\<lambda>w. charAt0 (stripNonAlnum w)) ws)))
   = concat (map (take 1) (map (\<lambda>w. toUpperCase (stripNonAlnum w)) ws))"
proof (induction ws)
  case Nil
  then show ?case by (simp add: toUpperCase_def List.map_filter_simps)
next
  case (Cons w ws)
  then show ?case
    by (cases "stripNonAlnum w")
       (simp_all add: List.map_filter_simps charAt0_def truthy_def toUpperCase_def)
qed

lemma blank_trim: "list_all isWhiteSpace s \<Longrightarrow> trim s = []"
proof -
  assume "list_all isWhiteSpace s"
  then have "dropWhile isWhiteSpace s = []" by (simp add: list_all_iff)
  then show ?thesis unfolding trim_def by (simp only: rev.simps dropWhile.simps)
qed

lemma generateInvoicePrefix_blank: "trim s = [] \<Longrightarrow> generateInvoicePrefix (Some s) = ''INV''"
  by (simp add: generateInvoicePrefix_def)

lemma generateInvoicePrefix_derived: "generateInvoicePrefix (Some s) = spec_derivedPrefix s"
proof (cases "trim s = []")
  case True
  then show ?thesis
    by (simp add: generateInvoicePrefix_def spec_derivedPrefix_def spec_words_blank)
next
  case False
  then have s: "s \<noteq> []" by (auto simp: trim_def)
  have w: "splitWhitespace [] (trim s) = spec_words s" using False by (rule words_of_name)
  show ?thesis
  proof (cases "spec_words s")
    case Nil
    with w show ?thesis using splitWhitespace_nonempty by metis
  next
    case (Cons w1 r1)
    note c1 = this
    show ?thesis
    proof (cases r1)
      case Nil
      with c1 w have "w1 = trim s" using splitWhitespace_single [of "[]" "trim s" w1] by simp
      then have "stripNonAlnum s = stripNonAlnum w1" by (simp add: stripNonAlnum_trim)
      then show ?thesis using False s w c1 Nil
        by (simp add: generateInvoicePrefix_def spec_derivedPrefix_def orElse_def substring0_def
            Let_def min_def)
    next
      case (Cons w2 r2)
      note c2 = this
      show ?thesis
      proof (cases r2)
        case Nil
        then show ?thesis using False s w c1 c2
          by (simp add: generateInvoicePrefix_def spec_derivedPrefix_def orElse_def substring0_def
              Let_def)
      next
        case (Cons w3 r3)
        have "min 5 (length (spec_words s)) \<le> 5" by simp
        have t: "take (min 5 (length (spec_words s))) (spec_words s) = take 5 (spec_words s)"
          by (simp add: min_def)
        have "generateInvoicePrefix (Some s) =
            orElse (toUpperCase (concat (List.map_filter (\<lambda>c. if truthy c then c else None)
              (map (\<lambda>w. charAt0 (stripNonAlnum w)) (take 5 (spec_words s)))))) ''INV''"
          using False s w c1 c2 Cons t
          by (simp add: generateInvoicePrefix_def Let_def del: take_Suc_Cons)
        also have "\<dots> = orElse (concat (map (take 1)
              (take 5 (map (\<lambda>w. toUpperCase (stripNonAlnum w)) (spec_words s))))) ''INV''"
          by (simp only: first_letters take_map)
        also have "\<dots> = spec_derivedPrefix s"
          using c1 c2 Cons by (simp add: spec_derivedPrefix_def orElse_def Let_def)
        finally show ?thesis .
      qed
    qed
  qed
qed


lemma freeform_generateInvoiceNumber:
  assumes "editingInvoice st = None" and "\<not> isSequential (firmDetails st)"
  shows "generateInvoiceNumber now st =
     (case prefixOf (firmDetails st) of
        None \<Rightarrow> generateInvoicePrefix (map_option firmName (firmDetails st))
      | Some p \<Rightarrow> if p = [] then generateInvoicePrefix (map_option firmName (firmDetails st)) else p)
     @ ''-'' @ numToString now"
  using assms by (simp add: generateInvoiceNumber_def truthy_def Let_def split: option.splits)

lemma prefix_examples:
  "generateInvoicePrefix (Some ''Shree'') = ''SHRE''"
  "generateInvoicePrefix (Some ''Shree Oil'') = ''SHOI''"
  "generateInvoicePrefix (Some ''Shree Oil Mill'') = ''SOM''"
  "generateInvoicePrefix (Some []) = ''INV''"
  by code_simp+

text \<open>
  C4. For a new invoice of a firm without sequential numbering, the invoice number is
  prefix-timestamp, the timestamp being \<open>Date.now()\<close> in milliseconds and the prefix the
  custom prefix when one is set (and not empty), otherwise the prefix derived from the firm
  name. The derivation is the specification's rule \<open>spec_derivedPrefix\<close> for every name:
  words stripped of non-alphanumeric characters and uppercased; one word gives its first 4
  characters, two words the first 2 of each, three or more the first letters of the first
  5 words; \<open>INV\<close> when nothing is left, for a missing name and for a blank one. Shree gives
  SHRE, Shree Oil gives SHOI, Shree Oil Mill gives SOM, the empty name INV.
\<close>

theorem freeform_prefix:
  assumes "user st = Some uid" and "editingInvoice st = None" and "\<not> isSequential (firmDetails st)"
  shows "(\<exists>inv. currentInvoice (handleGenerateBill GST_RATE now cn cp billItems d st) = Some inv
            \<and> invoiceNumber inv =
                (case prefixOf (firmDetails st) of
                   None \<Rightarrow> generateInvoicePrefix (map_option firmName (firmDetails st))
                 | Some p \<Rightarrow> if p = [] then generateInvoicePrefix (map_option firmName (firmDetails st))
                            else p)
                @ ''-'' @ numToString now)
       \<and> generateInvoicePrefix (Some name) = spec_derivedPrefix name
       \<and> generateInvoicePrefix None = ''INV''
       \<and> (list_all isWhiteSpace blank \<longrightarrow> generateInvoicePrefix (Some blank) = ''INV'')
       \<and> generateInvoicePrefix (Some ''Shree'') = ''SHRE''
       \<and> generateInvoicePrefix (Some ''Shree Oil'') = ''SHOI''
       \<and> generateInvoicePrefix (Some ''Shree Oil Mill'') = ''SOM''
       \<and> generateInvoicePrefix (Some []) = ''INV''"
proof -
  have n: "\<exists>inv. currentInvoice (handleGenerateBill GST_RATE now cn cp billItems d st) = Some inv
            \<and> invoiceNumber inv =
                (case prefixOf (firmDetails st) of
                   None \<Rightarrow> generateInvoicePrefix (map_option firmName (firmDetails st))
                 | Some p \<Rightarrow> if p = [] then generateInvoicePrefix (map_option firmName (firmDetails st))
                            else p)
                @ ''-'' @ numToString now"
    using generated_number [OF assms(1), of GST_RATE now cn cp billItems d]
      freeform_generateInvoiceNumber [OF assms(2,3), of now]
    by auto
  have u: "generateInvoicePrefix None = ''INV''"
    by (simp add: generateInvoicePrefix_def)
  have b: "list_all isWhiteSpace blank \<longrightarrow> generateInvoicePrefix (Some blank) = ''INV''"
    by (simp add: blank_trim generateInvoicePrefix_blank)
  show ?thesis
    by (intro conjI) (rule n u b generateInvoicePrefix_derived prefix_examples)+
qed

lemma demo_number: "numToString 1700000000000 = ''1700000000000''"
  by (simp add: numToString_def natToString.simps digitChar_def)


theorem freeform_prefix_witness:
  "user demoFree = Some ''u1'' \<and> editingInvoice demoFree = None
   \<and> \<not> isSequential (firmDetails demoFree) \<and> list_all isWhiteSpace ''  ''
   \<and> (\<exists>inv. currentInvoice (handleGenerateBill demoGstRate 1700000000000 ''Asha'' ''98250'' [] 0 demoFree)
               = Some inv \<and> invoiceNumber inv = ''SOM-1700000000000'')
   \<and> generateInvoicePrefix (Some ''  '') = ''INV''"
proof -
  have h: "user demoFree = Some ''u1''" "editingInvoice demoFree = None"
    "\<not> isSequential (firmDetails demoFree)"
    by (simp_all add: demoFree_def demoUser_def demoFreeFirm_def isSequential_def)
  have b: "list_all isWhiteSpace ''  ''"
    by (simp add: isWhiteSpace_def)
  have p: "prefixOf (firmDetails demoFree) = None"
    "map_option firmName (firmDetails demoFree) = Some ''Shree Oil Mill''"
    by (simp_all add: demoFree_def demoUser_def demoFreeFirm_def prefixOf_def)
  note t = freeform_prefix [OF h, of demoGstRate 1700000000000 "''Asha''" "''98250''" "[]" 0
      "''Shree''" "''  ''"]
  from t have "\<exists>inv. currentInvoice (handleGenerateBill demoGstRate 1700000000000 ''Asha'' ''98250'' [] 0 demoFree)
               = Some inv \<and> invoiceNumber inv =
                (case prefixOf (firmDetails demoFree) of
                   None \<Rightarrow> generateInvoicePrefix (map_option firmName (firmDetails demoFree))
                 | Some p \<Rightarrow> if p = [] then generateInvoicePrefix (map_option firmName (firmDetails demoFree))
                            else p)
                @ ''-'' @ numToString 1700000000000"
    by (rule conjunct1)
  then have e: "\<exists>inv. currentInvoice (handleGenerateBill demoGstRate 1700000000000 ''Asha'' ''98250'' [] 0 demoFree)
               = Some inv \<and> invoiceNumber inv = ''SOM-1700000000000''"
    by (simp only: p option.case prefix_examples demo_number append.simps)
  from t have "list_all isWhiteSpace ''  '' \<longrightarrow> generateInvoicePrefix (Some ''  '') = ''INV''"
    by (elim conjE)
  with b have "generateInvoicePrefix (Some ''  '') = ''INV''"
    by (rule rev_mp)
  with e h b show ?thesis by (intro conjI)
qed

section \<open>Saving: failure, edit and content\<close>

lemma save_update:
  assumes "user st = Some uid" and "truthy (inv_id invoice)"
  shows "handleSaveInvoice env invoice st store =
     (case updateDoc_invoice env (the (inv_id invoice)) (updateFields env (finalDataToSave invoice)) store of
        None \<Rightarrow> (Some False, st, store)
      | Some store1 \<Rightarrow> (Some True, afterSave invoice (inv_id invoice) st, store1))"
  using assms by (simp add: handleSaveInvoice_def Let_def)

lemma save_create:
  assumes "user st = Some uid" and "\<not> truthy (inv_id invoice)"
  shows "handleSaveInvoice env invoice st store =
     (case newDocId env of
        None \<Rightarrow> (Some False, st, store)
      | Some i \<Rightarrow>
          let store1 = store \<lparr> invoices := (invoices store)(i \<mapsto> createFields env (finalDataToSave invoice)) \<rparr>
          in if isSequential (firmDetails st) then
               let n = nextNumber (the (invoiceFormat (the (firmDetails st))))
               in (case updateDoc_firm env uid n store1 of
                     None \<Rightarrow> (Some False, setLocalCurrentNumber n st, store1)
                   | Some store2 \<Rightarrow> (Some True, afterSave invoice (Some i) (setLocalCurrentNumber n st), store2))
             else (Some True, afterSave invoice (Some i) st, store1))"
  using assms by (simp add: handleSaveInvoice_def addDoc_invoice_def Let_def split: option.splits)

text \<open>
  C6. When the store's create call fails for a new invoice (one without an id), the save
  reports failure and leaves the whole application state and the whole store as they were:
  no invoice id is assigned, and the firm's \<open>currentNumber\<close> is unchanged both in the local
  firm state and in the stored firm record.
\<close>

theorem failed_create_changes_nothing:
  assumes "user st = Some uid" and "\<not> truthy (inv_id invoice)" and "newDocId env = None"
  shows "handleSaveInvoice env invoice st store = (Some False, st, store)"
  using assms by (simp add: save_create)

theorem failed_create_changes_nothing_witness:
  "user demoSeq = Some ''u1'' \<and> \<not> truthy (inv_id demoPreview) \<and> newDocId demoEnvAddFails = None
   \<and> handleSaveInvoice demoEnvAddFails demoPreview demoSeq demoStore = (Some False, demoSeq, demoStore)"
proof -
  have h: "user demoSeq = Some ''u1''" "\<not> truthy (inv_id demoPreview)" "newDocId demoEnvAddFails = None"
    by (simp_all add: demoSeq_def demoUser_def demoPreview_def truthy_def demoEnvAddFails_def demoEnv_def)
  from failed_create_changes_nothing [OF h, of demoStore] h show ?thesis by simp
qed

lemma updateDoc_firm_fails: "\<not> firmUpdateOk env \<Longrightarrow> updateDoc_firm env uid n store = None"
  by (simp add: updateDoc_firm_def)

text \<open>
  C7, as stated, on a sequential firm: the invoice is written under its new id, the update
  of the firm counter fails, and the save reports failure, not success; the preview is
  not given its id.
\<close>

theorem counter_failure_fails_save_counterexample:
  "user demoSeq = Some ''u1'' \<and> \<not> truthy (inv_id demoPreview) \<and> isSequential (firmDetails demoSeq)
   \<and> newDocId demoEnvCounterFails = Some ''inv8'' \<and> \<not> firmUpdateOk demoEnvCounterFails
   \<and> fst (handleSaveInvoice demoEnvCounterFails demoPreview demoSeq demoStore) = Some False
   \<and> invoices (snd (snd (handleSaveInvoice demoEnvCounterFails demoPreview demoSeq demoStore))) ''inv8''
       = Some (createFields demoEnvCounterFails (finalDataToSave demoPreview))
   \<and> currentInvoice (fst (snd (handleSaveInvoice demoEnvCounterFails demoPreview demoSeq demoStore))) = None"
proof -
  have h: "user demoSeq = Some ''u1''" "\<not> truthy (inv_id demoPreview)"
    "isSequential (firmDetails demoSeq)" "newDocId demoEnvCounterFails = Some ''inv8''"
    "\<not> firmUpdateOk demoEnvCounterFails"
    by (simp_all add: demoSeq_def demoUser_def demoPreview_def truthy_def demoEnvCounterFails_def
        demoEnv_def isSequential_def demoFirm_def demoFormat_def)
  have c: "currentInvoice demoSeq = None"
    by (simp add: demoSeq_def demoUser_def)
  show ?thesis using h c
    by (simp add: save_create [OF h(1,2)] updateDoc_firm_fails Let_def setLocalCurrentNumber_def)
qed

text \<open>
  C7, amended. For a new invoice of a sequential firm, when the invoice record is written
  and the update of the firm counter then fails, the save reports failure to the caller:
  the counter update sits in the same \<open>try\<close> block as the invoice write, and any failure
  in it reaches the one \<open>catch\<close>. The invoice record stays in the store under its new id,
  the preview is not given that id, and the stored firm record is unchanged.
\<close>

theorem counter_failure_fails_save:
  assumes "user st = Some uid" and "\<not> truthy (inv_id invoice)" and "isSequential (firmDetails st)"
    and "newDocId env = Some i" and "\<not> firmUpdateOk env"
  shows "\<exists>st' store'. handleSaveInvoice env invoice st store = (Some False, st', store')
      \<and> invoices store' i = Some (createFields env (finalDataToSave invoice))
      \<and> currentInvoice st' = currentInvoice st
      \<and> firmDocs store' = firmDocs store"
  using assms
  by (simp add: save_create updateDoc_firm_fails Let_def setLocalCurrentNumber_def)

theorem counter_failure_fails_save_witness:
  "user demoSeq = Some ''u1'' \<and> \<not> truthy (inv_id demoPreview) \<and> isSequential (firmDetails demoSeq)
   \<and> newDocId demoEnvCounterFails = Some ''inv8'' \<and> \<not> firmUpdateOk demoEnvCounterFails
   \<and> (\<exists>st' store'. handleSaveInvoice demoEnvCounterFails demoPreview demoSeq demoStore = (Some False, st', store')
        \<and> invoices store' ''inv8'' = Some (createFields demoEnvCounterFails (finalDataToSave demoPreview))
        \<and> currentInvoice st' = currentInvoice demoSeq
        \<and> firmDocs store' = firmDocs demoStore)"
proof -
  have h: "user demoSeq = Some ''u1''" "\<not> truthy (inv_id demoPreview)"
    "isSequential (firmDetails demoSeq)" "newDocId demoEnvCounterFails = Some ''inv8''"
    "\<not> firmUpdateOk demoEnvCounterFails"
    by (simp_all add: demoSeq_def demoUser_def demoPreview_def truthy_def demoEnvCounterFails_def
        demoEnv_def isSequential_def demoFirm_def demoFormat_def)
  from counter_failure_fails_save [OF h, of demoStore] h show ?thesis by blast
qed


lemma generate_keeps:
  "user (handleGenerateBill G now cn cp billItems d st) = user st"
  "firmDetails (handleGenerateBill G now cn cp billItems d st) = firmDetails st"
  "editingInvoice (handleGenerateBill G now cn cp billItems d st) = editingInvoice st"
  by (simp_all add: handleGenerateBill_def Let_def split: option.splits)

lemma editing_preview:
  assumes "user st = Some uid" and "inv_id e = Some i" and "i \<noteq> []"
  shows "\<exists>preview. currentInvoice (handleGenerateBill G now cn cp billItems d (handleEditInvoice e st))
            = Some preview \<and> invoiceNumber preview = invoiceNumber e \<and> inv_id preview = Some i"
proof -
  have u: "user (handleEditInvoice e st) = Some uid" using assms(1) by (simp add: handleEditInvoice_def)
  have ed: "editingInvoice (handleEditInvoice e st) = Some e" by (simp add: handleEditInvoice_def)
  show ?thesis
    using generated_number [OF u, of G now cn cp billItems d] ed assms(2,3)
    by (auto simp: generateInvoiceNumber_def truthy_def)
qed

lemma update_outcome:
  assumes "user st = Some uid" and "inv_id invoice = Some i" and "i \<noteq> []"
  shows "handleSaveInvoice env invoice st store =
     (if invoiceUpdateOk env \<and> invoices store i \<noteq> None
      then (Some True, afterSave invoice (Some i) st,
            store \<lparr> invoices := (invoices store)(i \<mapsto>
                      updateFields env (finalDataToSave invoice) (the (invoices store i))) \<rparr>)
      else (Some False, st, store))"
  using assms by (auto simp: save_update truthy_def updateDoc_invoice_def split: option.splits)

text \<open>
  C3. For an existing invoice (one with a store-assigned, non-empty id), whatever the firm's
  numbering mode: the preview generated while editing it carries the stored invoice number
  verbatim and the same id; saving that preview creates no record and leaves the firm's
  counters alone (local and stored); the save succeeds exactly when the store accepts the
  update of that record, and then the record under the same id holds the same invoice
  number and the preview shown is the one saved.
\<close>

theorem edit_keeps_number_and_id:
  assumes "user st = Some uid" and "inv_id e = Some i" and "i \<noteq> []"
  shows "\<exists>preview r st2 store2.
      currentInvoice (handleGenerateBill GST_RATE now cn cp billItems d (handleEditInvoice e st)) = Some preview
      \<and> invoiceNumber preview = invoiceNumber e \<and> inv_id preview = Some i
      \<and> handleSaveInvoice env preview
            (handleGenerateBill GST_RATE now cn cp billItems d (handleEditInvoice e st)) store
          = (r, st2, store2)
      \<and> dom (invoices store2) = dom (invoices store)
      \<and> firmDocs store2 = firmDocs store
      \<and> firmDetails st2 = firmDetails st
      \<and> (r = Some True) = (invoiceUpdateOk env \<and> i \<in> dom (invoices store))
      \<and> (r = Some True \<longrightarrow>
            currentInvoice st2 = Some preview
            \<and> (\<exists>doc. invoices store2 i = Some doc \<and> doc_invoiceNumber doc = invoiceNumber e))"
proof -
  let ?st1 = "handleGenerateBill GST_RATE now cn cp billItems d (handleEditInvoice e st)"
  obtain preview where p: "currentInvoice ?st1 = Some preview" "invoiceNumber preview = invoiceNumber e"
    "inv_id preview = Some i"
    using editing_preview [OF assms, of GST_RATE now cn cp billItems d] by blast
  have u: "user ?st1 = Some uid" using assms(1) by (simp add: generate_keeps handleEditInvoice_def)
  have f: "firmDetails ?st1 = firmDetails st" by (simp add: generate_keeps handleEditInvoice_def)
  note o = update_outcome [OF u p(3) assms(3), of env store]
  have same: "preview \<lparr> inv_id := Some i \<rparr> = preview" using p(3) by simp
  show ?thesis
  proof (cases "invoiceUpdateOk env \<and> invoices store i \<noteq> None")
    case True
    then have "i \<in> dom (invoices store)" by auto
    then have "insert i (dom (invoices store)) = dom (invoices store)" by auto
    with True o p f same show ?thesis
      by (auto simp: afterSave_def finalDataToSave_def updateFields_def)
  next
    case False
    with o p f show ?thesis by auto
  qed
qed


theorem edit_keeps_number_and_id_witness:
  "user demoSeq = Some ''u1'' \<and> inv_id demoStored = Some ''inv7'' \<and> ''inv7'' \<noteq> []
   \<and> (\<exists>preview st2 store2.
        currentInvoice (handleGenerateBill demoGstRate 1700000000000 ''Asha'' ''98250'' demoItems 0
            (handleEditInvoice demoStored demoSeq)) = Some preview
        \<and> invoiceNumber preview = invoiceNumber demoStored \<and> inv_id preview = Some ''inv7''
        \<and> handleSaveInvoice demoEnv preview
              (handleGenerateBill demoGstRate 1700000000000 ''Asha'' ''98250'' demoItems 0
                (handleEditInvoice demoStored demoSeq)) demoStore
            = (Some True, st2, store2)
        \<and> currentInvoice st2 = Some preview
        \<and> firmDetails st2 = firmDetails demoSeq
        \<and> (\<exists>doc. invoices store2 ''inv7'' = Some doc \<and> doc_invoiceNumber doc = invoiceNumber demoStored))"
proof -
  have h: "user demoSeq = Some ''u1''" "inv_id demoStored = Some ''inv7''" "''inv7'' \<noteq> []"
    by (simp_all add: demoSeq_def demoUser_def demoStored_def)
  have ok: "invoiceUpdateOk demoEnv \<and> ''inv7'' \<in> dom (invoices demoStore)"
    by (simp add: demoEnv_def demoStore_def)
  from edit_keeps_number_and_id [OF h, of demoGstRate 1700000000000 "''Asha''" "''98250''" demoItems 0
      demoEnv demoStore] ok h
  show ?thesis by blast
qed

lemma sanitized_items:
  "list_all2 (\<lambda>a b. p_id (product b) = p_id (product a) \<and> p_name (product b) = p_name (product a)
        \<and> price (product b) = price (product a) \<and> quantity b = quantity a
        \<and> gstRate b = gstRate a
        \<and> lineId b = (if truthy (lineId a) then lineId a else None)
        \<and> docId (product b) = (if truthy (docId (product a)) then docId (product a) else None))
     xs (map sanitizeItem xs)"
  by (simp add: list_all2_map2 list_all2_same sanitizeItem_def)

lemma save_success_user: "handleSaveInvoice env invoice st store = (Some True, st', store') \<Longrightarrow> \<exists>uid. user st = Some uid"
  by (cases "user st") (simp_all add: handleSaveInvoice_def)

text \<open>
  C10, amended. Every successful save stores the preview's content unchanged: the record
  under the saved id has the same invoice number, date, customer name and phone, subtotal,
  tax amount, grand total and owner, and item by item the same product id, name, price,
  quantity and tax rate; \<open>lineId\<close> and \<open>docId\<close> are kept when present and not empty and
  dropped when absent or empty. The save adds the id (the one the store assigns on a
  create, the invoice's own on an update) and the server's timestamp (\<open>createdAt\<close> on a
  create, \<open>updatedAt\<close> on an update), and the preview shown afterwards is the saved one with
  that id.
\<close>

theorem save_persists_preview:
  assumes "handleSaveInvoice env invoice st store = (Some True, st', store')"
  shows "\<exists>i doc. currentInvoice st' = Some (invoice \<lparr> inv_id := Some i \<rparr>)
      \<and> Some i = (if truthy (inv_id invoice) then inv_id invoice else newDocId env)
      \<and> invoices store' i = Some doc
      \<and> doc_invoiceNumber doc = invoiceNumber invoice \<and> doc_date doc = date invoice
      \<and> doc_customerName doc = customerName invoice \<and> doc_customerPhone doc = customerPhone invoice
      \<and> doc_subtotal doc = subtotal invoice \<and> doc_gstAmount doc = gstAmount invoice
      \<and> doc_grandTotal doc = grandTotal invoice \<and> doc_userId doc = userId invoice
      \<and> list_all2 (\<lambda>a b. p_id (product b) = p_id (product a) \<and> p_name (product b) = p_name (product a)
            \<and> price (product b) = price (product a) \<and> quantity b = quantity a
            \<and> gstRate b = gstRate a
            \<and> lineId b = (if truthy (lineId a) then lineId a else None)
            \<and> docId (product b) = (if truthy (docId (product a)) then docId (product a) else None))
          (items invoice) (doc_items doc)
      \<and> (if truthy (inv_id invoice) then doc_updatedAt doc = Some (serverTime env)
          else doc_createdAt doc = Some (serverTime env) \<and> doc_updatedAt doc = None)"
proof -
  obtain uid where u: "user st = Some uid" using save_success_user [OF assms] by blast
  let ?P = "\<lambda>doc. doc_invoiceNumber doc = invoiceNumber invoice \<and> doc_date doc = date invoice
      \<and> doc_customerName doc = customerName invoice \<and> doc_customerPhone doc = customerPhone invoice
      \<and> doc_subtotal doc = subtotal invoice \<and> doc_gstAmount doc = gstAmount invoice
      \<and> doc_grandTotal doc = grandTotal invoice \<and> doc_userId doc = userId invoice
      \<and> list_all2 (\<lambda>a b. p_id (product b) = p_id (product a) \<and> p_name (product b) = p_name (product a)
            \<and> price (product b) = price (product a) \<and> quantity b = quantity a
            \<and> gstRate b = gstRate a
            \<and> lineId b = (if truthy (lineId a) then lineId a else None)
            \<and> docId (product b) = (if truthy (docId (product a)) then docId (product a) else None))
          (items invoice) (doc_items doc)"
  have c: "?P (createFields env (finalDataToSave invoice))"
    using sanitized_items [of "items invoice"] by (simp add: createFields_def finalDataToSave_def)
  have up: "?P (updateFields env (finalDataToSave invoice) old)" for old
    using sanitized_items [of "items invoice"] by (simp add: updateFields_def finalDataToSave_def)
  show ?thesis
  proof (cases "truthy (inv_id invoice)")
    case True
    then obtain i where i: "inv_id invoice = Some i" "i \<noteq> []"
      by (auto simp: truthy_def split: option.splits)
    from assms update_outcome [OF u i, of env store]
    have r: "st' = afterSave invoice (Some i) st"
      "store' = store \<lparr> invoices := (invoices store)(i \<mapsto>
                      updateFields env (finalDataToSave invoice) (the (invoices store i))) \<rparr>"
      by (auto split: if_splits)
    have t: "doc_updatedAt (updateFields env (finalDataToSave invoice) old) = Some (serverTime env)" for old
      by (simp add: updateFields_def)
    show ?thesis
      apply (rule exI [of _ i])
      apply (rule exI [of _ "updateFields env (finalDataToSave invoice) (the (invoices store i))"])
      using True i up t by (simp add: r afterSave_def)
  next
    case False
    from assms save_create [OF u False, of env store]
    obtain i where i: "newDocId env = Some i" by (cases "newDocId env") auto
    have t: "doc_createdAt (createFields env (finalDataToSave invoice)) = Some (serverTime env)"
      "doc_updatedAt (createFields env (finalDataToSave invoice)) = None"
      by (simp_all add: createFields_def finalDataToSave_def)
    from assms save_create [OF u False, of env store] i
    have r: "currentInvoice st' = Some (invoice \<lparr> inv_id := Some i \<rparr>)"
      "invoices store' i = Some (createFields env (finalDataToSave invoice))"
      by (auto simp: Let_def afterSave_def updateDoc_firm_def split: if_splits option.splits)
    show ?thesis
      apply (rule exI [of _ i])
      apply (rule exI [of _ "createFields env (finalDataToSave invoice)"])
      using False i c t r by simp
  qed
qed


lemma demoSaved_result:
  "fst demoSaved = Some True"
  "invoices (snd (snd demoSaved)) ''inv8'' = Some (createFields demoEnv (finalDataToSave demoPreview))"
proof -
  have h: "user demoSeq = Some ''u1''" "\<not> truthy (inv_id demoPreview)"
    by (simp_all add: demoSeq_def demoUser_def demoPreview_def truthy_def)
  have e: "newDocId demoEnv = Some ''inv8''" "firmUpdateOk demoEnv"
    "isSequential (firmDetails demoSeq)" "firmDocs demoStore ''u1'' = Some demoFirm"
    by (simp_all add: demoEnv_def demoSeq_def demoUser_def isSequential_def demoFirm_def
        demoFormat_def demoStore_def)
  show "fst demoSaved = Some True"
    by (simp add: demoSaved_def save_create [OF h] e updateDoc_firm_def Let_def)
  show "invoices (snd (snd demoSaved)) ''inv8'' = Some (createFields demoEnv (finalDataToSave demoPreview))"
    by (simp add: demoSaved_def save_create [OF h] e updateDoc_firm_def Let_def)
qed

text \<open>
  C10, as stated, on a preview whose first item has the empty string as \<open>lineId\<close>: the
  field is present, and the saved record does not have it.
\<close>

theorem empty_lineId_dropped_counterexample:
  "fst demoSaved = Some True
   \<and> lineId (hd (items demoPreview)) = Some []
   \<and> map_option (lineId \<circ> hd \<circ> doc_items) (invoices (snd (snd demoSaved)) ''inv8'') = Some None"
  by (simp add: demoSaved_result createFields_def finalDataToSave_def demoPreview_def demoItems_def
      sanitizeItem_def truthy_def)

theorem save_persists_preview_witness:
  "handleSaveInvoice demoEnv demoPreview demoSeq demoStore = (Some True, fst (snd demoSaved), snd (snd demoSaved))
   \<and> (\<exists>doc. currentInvoice (fst (snd demoSaved)) = Some (demoPreview \<lparr> inv_id := Some ''inv8'' \<rparr>)
        \<and> invoices (snd (snd demoSaved)) ''inv8'' = Some doc
        \<and> doc_invoiceNumber doc = invoiceNumber demoPreview
        \<and> doc_grandTotal doc = grandTotal demoPreview
        \<and> doc_createdAt doc = Some (serverTime demoEnv))"
proof -
  have h: "handleSaveInvoice demoEnv demoPreview demoSeq demoStore
      = (Some True, fst (snd demoSaved), snd (snd demoSaved))"
    using demoSaved_result(1) by (simp add: demoSaved_def prod_eq_iff)
  have n: "\<not> truthy (inv_id demoPreview)" "newDocId demoEnv = Some ''inv8''"
    by (simp_all add: demoPreview_def truthy_def demoEnv_def)
  from save_persists_preview [OF h] obtain i doc where
    r: "currentInvoice (fst (snd demoSaved)) = Some (demoPreview \<lparr> inv_id := Some i \<rparr>)"
      "Some i = (if truthy (inv_id demoPreview) then inv_id demoPreview else newDocId demoEnv)"
      "invoices (snd (snd demoSaved)) i = Some doc"
      "doc_invoiceNumber doc = invoiceNumber demoPreview"
      "doc_grandTotal doc = grandTotal demoPreview"
      "if truthy (inv_id demoPreview) then doc_updatedAt doc = Some (serverTime demoEnv)
       else doc_createdAt doc = Some (serverTime demoEnv) \<and> doc_updatedAt doc = None"
    by blast
  from r(2) n have i: "i = ''inv8''" by simp
  from r(6) n have c: "doc_createdAt doc = Some (serverTime demoEnv)" by simp
  from h r(1,3,4,5) i c show ?thesis by blast
qed

section \<open>Customers are kept sorted\<close>

lemma sortByName_sorted: "sortedByName collate (sortByName collate cs)"
  by (simp add: sortedByName_def sortByName_def)

lemma filter_sortedByName:
  "sortedByName collate cs \<Longrightarrow> sortedByName collate (filter P cs)"
  by (simp add: sortedByName_def sorted_filter)

text \<open>
  C8. After a customer add that succeeds (for a logged-in user) and after a customer update
  that succeeds, the customer list is sorted by name, whatever it was before; deleting a
  customer, confirmed or not, successful or not, leaves a sorted list sorted. Names are
  compared by the collation key.
\<close>

theorem customers_sorted:
  "(user st = Some uid \<longrightarrow>
      sortedByName collate (customers (handleAddCustomer collate (Some newId) customer st)))
   \<and> sortedByName collate (customers (handleUpdateCustomer collate True cid data st))
   \<and> (sortedByName collate (customers st) \<longrightarrow>
        sortedByName collate (customers (handleDeleteCustomer confirmed deleteOk cid st)))"
  by (simp add: handleAddCustomer_def handleUpdateCustomer_def handleDeleteCustomer_def
      sortByName_sorted filter_sortedByName Let_def)

lemma demoShop_sorted: "sortedByName (\<lambda>n. n) (customers demoShop)"
  by (simp add: sortedByName_def demoShop_def demoCustomers_def)

theorem customers_sorted_witness:
  "user demoShop = Some ''u1'' \<and> sortedByName (\<lambda>n. n) (customers demoShop)
   \<and> sortedByName (\<lambda>n. n) (customers (handleAddCustomer (\<lambda>n. n) (Some ''c3'') demoNewCustomer demoShop))
   \<and> sortedByName (\<lambda>n. n) (customers (handleUpdateCustomer (\<lambda>n. n) True ''c1'' demoPatch demoShop))
   \<and> sortedByName (\<lambda>n. n) (customers (handleDeleteCustomer True True ''c1'' demoShop))"
proof -
  have h: "user demoShop = Some ''u1''"
    by (simp add: demoShop_def demoUser_def)
  from customers_sorted [of demoShop "''u1''" "\<lambda>n. n" "''c3''" demoNewCustomer "''c1''" demoPatch True True]
    h demoShop_sorted
  show ?thesis by blast
qed

section \<open>The custom prefix stored by the setup form\<close>

lemma upper_of_alnum: "isAlnum c \<Longrightarrow> isUpperAlnum (toUpperChar c)"
  by (auto simp: isAlnum_def isUpperAlnum_def toUpperChar_def Let_def)

lemma sanitized_valid: "validPrefix (substring0 10 (toUpperCase (stripNonAlnum v)))"
proof -
  have "list_all isUpperAlnum (toUpperCase (stripNonAlnum v))"
    by (simp add: toUpperCase_def stripNonAlnum_def list_all_iff upper_of_alnum)
  then have "list_all isUpperAlnum (take 10 (toUpperCase (stripNonAlnum v)))"
    by (auto simp: list_all_iff dest: in_set_takeD)
  then show ?thesis by (simp add: validPrefix_def substring0_def)
qed

lemma prefix_name_not_checkbox: "''customInvoicePrefix'' \<notin> set checkboxNames"
  by (simp add: checkboxNames_def)

lemma handleEvent_keeps_valid:
  assumes "prefixFieldValid fs" and "firedByForm e"
  shows "prefixFieldValid (handleEvent fs e)"
proof (cases e)
  case (InputChange name val)
  with assms show ?thesis by (simp add: handleInputChange_def prefixFieldValid_def)
next
  case (CheckboxChange name checked)
  with assms prefix_name_not_checkbox have "name \<noteq> ''customInvoicePrefix''" by auto
  with assms CheckboxChange show ?thesis by (simp add: handleCheckboxChange_def prefixFieldValid_def)
next
  case (DisplaySettingTextChange name val)
  with assms show ?thesis
    by (simp add: handleDisplaySettingTextChange_def prefixFieldValid_def sanitized_valid Let_def)
qed

lemma events_keep_valid:
  "prefixFieldValid fs \<Longrightarrow> list_all firedByForm events \<Longrightarrow> prefixFieldValid (foldl handleEvent fs events)"
  by (induction events arbitrary: fs) (simp_all add: handleEvent_keeps_valid)

lemma validPrefix_empty: "validPrefix []"
  by (simp add: validPrefix_def)

lemma initialState_valid:
  assumes "existingPrefixValid existingDetails"
  shows "prefixFieldValid (initialState existingDetails)"
  using assms prefix_name_not_checkbox
  by (auto simp: initialState_def prefixFieldValid_def existingPrefixValid_def prefixOf_def
      validPrefix_empty Let_def split: option.splits)

text \<open>
  C9. A firm document written by the setup form carries a custom invoice prefix of at most
  10 characters, all of them digits or uppercase letters, for every sequence of change
  events the form's inputs can fire, provided the prefix the form was opened with was such
  a one (or there was none, as on first setup); the saved document then satisfies that
  proviso for the next time the form is opened. The input handler stores the typed value
  stripped of non-alphanumeric characters, uppercased and cut to 10 characters.
\<close>

theorem stored_prefix_valid:
  assumes "existingPrefixValid existingDetails" and "list_all firedByForm events"
    and "handleSubmit submitOk uid (foldl handleEvent (initialState existingDetails) events) store
          = (Some fd, store')"
  shows "(\<exists>ds p. displaySettings fd = Some ds \<and> customInvoicePrefix ds = Some p
            \<and> length p \<le> 10 \<and> list_all isUpperAlnum p)
       \<and> firmDocs store' uid = Some fd
       \<and> existingPrefixValid (Some fd)
       \<and> textOf (displaySettingsForm (handleDisplaySettingTextChange ''customInvoicePrefix'' v fs))
             ''customInvoicePrefix'' = Some (take 10 (toUpperCase (stripNonAlnum v)))"
proof -
  let ?fs = "foldl handleEvent (initialState existingDetails) events"
  have "prefixFieldValid ?fs"
    using assms(1,2) by (simp add: initialState_valid events_keep_valid)
  then obtain p where p: "displaySettingsForm ?fs ''customInvoicePrefix'' = Some (Text p)" "validPrefix p"
    by (auto simp: prefixFieldValid_def split: option.splits SettingValue.splits)
  from assms(3) have ok: submitOk by (auto simp: handleSubmit_def split: if_splits)
  with assms(3) p have fd: "\<exists>ds. displaySettings fd = Some ds \<and> customInvoicePrefix ds = Some p"
    "firmDocs store' uid = Some fd"
    by (auto simp: handleSubmit_def textOf_def Let_def)
  then have "existingPrefixValid (Some fd)" using p(2)
    by (auto simp: existingPrefixValid_def prefixOf_def)
  moreover have "textOf (displaySettingsForm (handleDisplaySettingTextChange ''customInvoicePrefix'' v fs))
             ''customInvoicePrefix'' = Some (take 10 (toUpperCase (stripNonAlnum v)))"
    by (simp add: handleDisplaySettingTextChange_def textOf_def substring0_def Let_def)
  ultimately show ?thesis using fd p(2) by (auto simp: validPrefix_def)
qed

lemma demo_prefix: "take 10 (toUpperCase (stripNonAlnum ''som-2024/25 extra'')) = ''SOM202425E''"
  by code_simp


lemma demoSubmitted_prefix:
  "map_option customInvoicePrefix (displaySettings (the (fst demoSubmitted))) = Some (Some ''SOM202425E'')"
  by (simp add: demoSubmitted_def handleSubmit_def demoEvents_def handleInputChange_def
      handleCheckboxChange_def handleDisplaySettingTextChange_def textOf_def substring0_def
      demo_prefix Let_def)

theorem stored_prefix_valid_witness:
  "existingPrefixValid None \<and> list_all firedByForm demoEvents
   \<and> handleSubmit True ''u1'' (foldl handleEvent (initialState None) demoEvents) demoStore
       = (Some (the (fst demoSubmitted)), snd demoSubmitted)
   \<and> (\<exists>ds p. displaySettings (the (fst demoSubmitted)) = Some ds \<and> customInvoicePrefix ds = Some p
          \<and> length p \<le> 10 \<and> list_all isUpperAlnum p)
   \<and> map_option customInvoicePrefix (displaySettings (the (fst demoSubmitted))) = Some (Some ''SOM202425E'')
   \<and> firmDocs (snd demoSubmitted) ''u1'' = Some (the (fst demoSubmitted))"
proof -
  have h1: "existingPrefixValid None"
    by (simp add: existingPrefixValid_def prefixOf_def)
  have h2: "list_all firedByForm demoEvents"
    by (simp add: demoEvents_def checkboxNames_def textSettingNames_def)
  have "fst demoSubmitted \<noteq> None"
    by (simp add: demoSubmitted_def handleSubmit_def Let_def)
  then have h3: "handleSubmit True ''u1'' (foldl handleEvent (initialState None) demoEvents) demoStore
       = (Some (the (fst demoSubmitted)), snd demoSubmitted)"
    by (simp add: demoSubmitted_def prod_eq_iff)
  from stored_prefix_valid [OF h1 h2 h3] h1 h2 h3 demoSubmitted_prefix
  show ?thesis by blast
qed

section \<open>The counter advances with new saves only\<close>



















end
